theory Spec2Isabelle
  imports Main
begin

section \<open>Data model of the client (frontend/src/types.ts)\<close>

text \<open>
  The interfaces of \<^verbatim>\<open>types.ts\<close> as records. An optional field \<^verbatim>\<open>f?: T\<close> is a
  \<open>T option\<close> (\<open>None\<close> is \<^verbatim>\<open>undefined\<close>), and so is a nullable \<^verbatim>\<open>T | null\<close> (\<open>None\<close> is
  \<^verbatim>\<open>null\<close>). Numbers hold whole values everywhere in the catalog and in the snapshots,
  so they are \<open>int\<close>. Field names that clash between interfaces, or with a constant
  of HOL, carry a prefix.
\<close>

record CardEffect =
  ef_type :: string
  amount :: "int option"

datatype card_type = Treasure | Victory | Action

datatype card_subtype = SubAction | SubAttack | SubReaction

record Card =
  card_id :: string
  card_name :: string
  name_en :: "string option"
  card_type :: card_type
  subtype :: "card_subtype option"
  cost :: int
  coin_value :: "int option"
  victory_points :: "int option"
  description :: "string option"
  icon :: "string option"
  effects :: "CardEffect list"
  reaction :: "string option"

record PlayerState =
  ps_id :: string
  ps_name :: string
  hand_count :: int
  deck_count :: int
  discard_count :: int
  play_area :: "string list"
  actions :: int
  buys :: int
  coins :: int
  connected :: bool
  hand :: "string list option"
  discard_pile :: "string list option"

record PendingAction =
  pa_type :: string
  player_id :: "string option"
  target_player_id :: "string option"
  attacker_id :: "string option"
  discard_to :: "int option"
  max_cards :: "int option"
  max_cost :: "int option"
  revealed_card :: "string option"
  revealed_cards :: "string list option"

record ScoreEntry =
  score_id :: string
  score_name :: string
  vp :: int

text \<open>
  \<^verbatim>\<open>supply: Record<string, number>\<close> is read through \<^verbatim>\<open>Object.entries\<close> only, so it is
  the list of its entries.
\<close>

record GameState =
  game_id :: string
  started :: bool
  phase :: string
  current_player :: "string option"
  current_player_name :: "string option"
  supply_piles :: "(string \<times> int) list"
  trash :: "string list"
  game_log :: "string list"
  players :: "PlayerState list"
  pending_action :: "PendingAction option"
  scores :: "ScoreEntry list option"

datatype Screen = Lobby | Waiting | Game

datatype ws_type = Joined | State | Error

record WSMessage =
  msg_type :: ws_type
  msg_player_id :: "string option"
  msg_game_id :: "string option"
  msg_state :: "GameState option"
  msg_message :: "string option"

text \<open>
  The action envelopes the client sends (\<^verbatim>\<open>send({action: ..., ...})\<close> in GameBoard.tsx
  and useWebSocket.ts). A sentry decision is a list of \<^verbatim>\<open>{card_id, action}\<close> pairs.
\<close>

datatype client_action =
    Join string "string option"
  | Start
  | PlayAction string
  | PlayTreasure string
  | SkipAction
  | PlayAllTreasures
  | Buy string
  | EndTurn
  | DiscardSelection "string list"
  | TrashSelection "string list"
  | GainSelection string
  | TopdeckSelection "string option"
  | VassalDecision bool
  | SentryDecision "(string \<times> string) list"

section \<open>JavaScript values the client's expressions compute\<close>

text \<open>
  \<^verbatim>\<open>a === b\<close> where \<open>a\<close> is an optional field (absent: \<^verbatim>\<open>undefined\<close>) and \<open>b\<close> is a
  \<^verbatim>\<open>string | null\<close>: \<^verbatim>\<open>undefined === null\<close> is false, so the comparison holds only for
  two equal strings. (Between two \<^verbatim>\<open>string | null\<close> values \<^verbatim>\<open>===\<close> is HOL's equality:
  \<^verbatim>\<open>null === null\<close> is true.)
\<close>

definition undef_eq_null :: "string option \<Rightarrow> string option \<Rightarrow> bool" where
  "undef_eq_null a b =
     (case a of None \<Rightarrow> False
      | Some x \<Rightarrow> (case b of None \<Rightarrow> False | Some y \<Rightarrow> x = y))"

text \<open>\<^verbatim>\<open>x || 0\<close> on a number that may be absent: absent and \<open>0\<close> both give \<open>0\<close>.\<close>

definition num_or0 :: "int option \<Rightarrow> int" where
  "num_or0 v = (case v of None \<Rightarrow> 0 | Some x \<Rightarrow> (if x = 0 then 0 else x))"

text \<open>A string is truthy when it is present and not empty.\<close>

definition truthy :: "string option \<Rightarrow> bool" where
  "truthy v = (case v of None \<Rightarrow> False | Some s \<Rightarrow> s \<noteq> [])"

text \<open>
  Template literals print a number in decimal. The amounts of the catalog's effects
  are whole numbers, and \<open>show_int\<close> prints them as JavaScript does as long as they are
  below \<^verbatim>\<open>1e21\<close> in absolute value; from there on JavaScript prints a number in
  exponent notation (and a whole number beyond \<^verbatim>\<open>2 ** 53\<close> is rounded when the catalog is
  parsed). What is stated below of the effect lines for every amount holds of the code
  for the amounts of that range.
\<close>

fun digits :: "nat \<Rightarrow> string" where
  "digits n =
     (if n < 10 then [''0123456789'' ! n]
      else digits (n div 10) @ [''0123456789'' ! (n mod 10)])"

definition show_int :: "int \<Rightarrow> string" where
  "show_int i = (if i < 0 then ''-'' @ digits (nat (- i)) else digits (nat i))"

subsection \<open>Property lookup on an object literal\<close>

text \<open>
  \<^verbatim>\<open>effectLabels\<close> (effectLabels.ts) and \<^verbatim>\<open>cardDefs\<close> (useGameState.ts) are plain
  objects, created by \<^verbatim>\<open>{...}\<close> and \<^verbatim>\<open>{}\<close>, and both are read with \<^verbatim>\<open>obj[key]\<close> for a key
  that comes from data. Their prototype is \<^verbatim>\<open>Object.prototype\<close>, so \<^verbatim>\<open>obj[key]\<close> is the
  object's own property when it has one, else the property of that name of
  \<^verbatim>\<open>Object.prototype\<close>, else \<^verbatim>\<open>undefined\<close>. The names below are the properties of
  \<^verbatim>\<open>Object.prototype\<close> (ECMAScript, with its legacy accessors); none of them is
  \<^verbatim>\<open>null\<close> or \<^verbatim>\<open>undefined\<close>, and all are truthy.
\<close>

definition object_prototype_keys :: "string list" where
  "object_prototype_keys =
     [''constructor'', ''__defineGetter__'', ''__defineSetter__'', ''hasOwnProperty'',
      ''__lookupGetter__'', ''__lookupSetter__'', ''isPrototypeOf'',
      ''propertyIsEnumerable'', ''toString'', ''valueOf'', ''__proto__'',
      ''toLocaleString'']"

datatype 'a js_property = Own 'a | Inherited string | Undefined

definition js_get :: "(string \<rightharpoonup> 'a) \<Rightarrow> string \<Rightarrow> 'a js_property" where
  "js_get obj k =
     (case obj k of
        Some v \<Rightarrow> Own v
      | None \<Rightarrow> (if k \<in> set object_prototype_keys then Inherited k else Undefined))"

section \<open>The card lookup (hooks/useGameState.ts, cardDefs and getCard)\<close>

text \<open>
  Source: \<^verbatim>\<open>src/unnamed/part_000\<close>, lines 70 and 103 to 124.

  \<^verbatim>\<open>cardDefs\<close> starts as \<^verbatim>\<open>{}\<close>; when the catalog arrives it becomes the object built
  by \<^verbatim>\<open>const defs = {}; for (const card of data.cards) defs[card.id] = card\<close>. The
  assignment \<^verbatim>\<open>defs[k] = card\<close> adds or replaces the own property \<open>k\<close>, for every key but
  \<^verbatim>\<open>__proto__\<close>: that key is the accessor of \<^verbatim>\<open>Object.prototype\<close>, whose setter makes
  the card the prototype of \<open>defs\<close> and adds no property. The state of the object is
  therefore the map of its own properties and the card, if any, that stands between
  it and \<^verbatim>\<open>Object.prototype\<close> in the prototype chain.
\<close>

record card_defs =
  own_cards :: "string \<rightharpoonup> Card"
  proto_card :: "Card option"

definition no_cards :: card_defs where
  "no_cards = \<lparr> own_cards = Map.empty, proto_card = None \<rparr>"

definition store_card :: "card_defs \<Rightarrow> Card \<Rightarrow> card_defs" where
  "store_card defs c =
     (if card_id c = ''__proto__'' then defs \<lparr> proto_card := Some c \<rparr>
      else defs \<lparr> own_cards := (own_cards defs)(card_id c \<mapsto> c) \<rparr>)"

definition load_cards :: "Card list \<Rightarrow> card_defs" where
  "load_cards cards = foldl store_card no_cards cards"

text \<open>
  The own properties of a card parsed from the catalog: the fields of \<^verbatim>\<open>Card\<close>, the
  optional ones when present.
\<close>

definition card_fields :: "Card \<Rightarrow> string list" where
  "card_fields c =
     [''id'', ''name'', ''type'', ''cost'', ''effects'']
     @ (if name_en c = None then [] else [''name_en''])
     @ (if subtype c = None then [] else [''subtype''])
     @ (if coin_value c = None then [] else [''coin_value''])
     @ (if victory_points c = None then [] else [''victory_points''])
     @ (if description c = None then [] else [''description''])
     @ (if icon c = None then [] else [''icon''])
     @ (if reaction c = None then [] else [''reaction''])"

text \<open>
  \<^verbatim>\<open>getCard(id) = cardDefs[id] ?? {id, name: id, icon: '?', description: '',
  type: 'action', cost: 0, effects: []}\<close>.
  \<^verbatim>\<open>cardDefs[id]\<close> is the own property \<open>id\<close> when there is one; else, along the
  prototype chain, the card made the prototype (for the key \<^verbatim>\<open>__proto__\<close>) or its
  field of that name, else the member of that name of \<^verbatim>\<open>Object.prototype\<close>; else
  \<^verbatim>\<open>undefined\<close>. \<^verbatim>\<open>??\<close> replaces \<^verbatim>\<open>null\<close> and \<^verbatim>\<open>undefined\<close> only, so a field of a card
  or a member of \<^verbatim>\<open>Object.prototype\<close> is returned as it is: the caller gets a value
  that is not a card.
\<close>

datatype card_value = ACard Card | ProtoMember string | CardField Card string

definition placeholder :: "string \<Rightarrow> Card" where
  "placeholder i =
     \<lparr> card_id = i, card_name = i, name_en = None, card_type = Action, subtype = None,
       cost = 0, coin_value = None, victory_points = None, description = Some [],
       icon = Some ''?'', effects = [], reaction = None \<rparr>"

definition inherited_or_placeholder :: "string \<Rightarrow> card_value" where
  "inherited_or_placeholder i =
     (if i \<in> set object_prototype_keys then ProtoMember i else ACard (placeholder i))"

definition getCard :: "card_defs \<Rightarrow> string \<Rightarrow> card_value" where
  "getCard cardDefs i =
     (case own_cards cardDefs i of
        Some c \<Rightarrow> ACard c
      | None \<Rightarrow>
          (case proto_card cardDefs of
             None \<Rightarrow> inherited_or_placeholder i
           | Some pc \<Rightarrow>
               if i = ''__proto__'' then ACard pc
               else if i \<in> set (card_fields pc) then CardField pc i
               else inherited_or_placeholder i))"

text \<open>
  What the components read from the value \<open>getCard\<close> returned. A member of
  \<^verbatim>\<open>Object.prototype\<close> and a field of a card (a string, a number or an array) have
  none of the fields read here: each is \<^verbatim>\<open>undefined\<close>.
\<close>

fun cv_type :: "card_value \<Rightarrow> card_type option" where
  "cv_type (ACard c) = Some (card_type c)"
| "cv_type (ProtoMember k) = None"
| "cv_type (CardField pc f) = None"

fun cv_cost_or0 :: "card_value \<Rightarrow> int" where
  "cv_cost_or0 (ACard c) = num_or0 (Some (cost c))"
| "cv_cost_or0 (ProtoMember k) = num_or0 None"
| "cv_cost_or0 (CardField pc f) = num_or0 None"

fun cv_effects :: "card_value \<Rightarrow> CardEffect list" where
  "cv_effects (ACard c) = effects c"
| "cv_effects (ProtoMember k) = []"
| "cv_effects (CardField pc f) = []"

fun cv_coin_value :: "card_value \<Rightarrow> int option" where
  "cv_coin_value (ACard c) = coin_value c"
| "cv_coin_value (ProtoMember k) = None"
| "cv_coin_value (CardField pc f) = None"

fun cv_victory_points :: "card_value \<Rightarrow> int option" where
  "cv_victory_points (ACard c) = victory_points c"
| "cv_victory_points (ProtoMember k) = None"
| "cv_victory_points (CardField pc f) = None"

fun cv_reaction :: "card_value \<Rightarrow> string option" where
  "cv_reaction (ACard c) = reaction c"
| "cv_reaction (ProtoMember k) = None"
| "cv_reaction (CardField pc f) = None"

section \<open>Effect lines (components/Game/effectLabels.ts)\<close>

text \<open>
  Source: \<^verbatim>\<open>src/frontend/src/components/Game/effectLabels.ts\<close>.

  The table \<^verbatim>\<open>effectLabels\<close>: one label function per effect tag. The labels are the
  source's texts, the characters outside ASCII as their UTF-8 bytes.
\<close>

definition effectLabels_entries :: "(string \<times> (int \<Rightarrow> string)) list" where
  "effectLabels_entries = [
    (''draw'', \<lambda>n.
       ''+''
       @ show_int n
       @ '' ''
       @ [CHR 0xE3, CHR 0x82, CHR 0xAB, CHR 0xE3, CHR 0x83, CHR 0xBC,
        CHR 0xE3, CHR 0x83, CHR 0x89, CHR 0xE3, CHR 0x82, CHR 0x92,
        CHR 0xE5, CHR 0xBC, CHR 0x95, CHR 0xE3, CHR 0x81, CHR 0x8F]),
    (''action'', \<lambda>n.
       ''+''
       @ show_int n
       @ '' ''
       @ [CHR 0xE3, CHR 0x82, CHR 0xA2, CHR 0xE3, CHR 0x82, CHR 0xAF,
        CHR 0xE3, CHR 0x82, CHR 0xB7, CHR 0xE3, CHR 0x83, CHR 0xA7,
        CHR 0xE3, CHR 0x83, CHR 0xB3]),
    (''buy'', \<lambda>n.
       ''+''
       @ show_int n
       @ '' ''
       @ [CHR 0xE8, CHR 0xB3, CHR 0xBC, CHR 0xE5, CHR 0x85, CHR 0xA5]),
    (''coin'', \<lambda>n.
       ''+''
       @ show_int n
       @ '' ''
       @ [CHR 0xE3, CHR 0x82, CHR 0xB3, CHR 0xE3, CHR 0x82, CHR 0xA4,
        CHR 0xE3, CHR 0x83, CHR 0xB3]),
    (''coin_value'', \<lambda>n.
       ''+''
       @ show_int n
       @ '' ''
       @ [CHR 0xE3, CHR 0x82, CHR 0xB3, CHR 0xE3, CHR 0x82, CHR 0xA4,
        CHR 0xE3, CHR 0x83, CHR 0xB3]),
    (''victory_points'', \<lambda>n.
       show_int n
       @ '' ''
       @ [CHR 0xE5, CHR 0x8B, CHR 0x9D, CHR 0xE5, CHR 0x88, CHR 0xA9,
        CHR 0xE7, CHR 0x82, CHR 0xB9]),
    (''attack_discard_to'', \<lambda>n.
       [CHR 0xE3, CHR 0x80, CHR 0x90, CHR 0xE6, CHR 0x94, CHR 0xBB,
        CHR 0xE6, CHR 0x92, CHR 0x83, CHR 0xE3, CHR 0x80, CHR 0x91,
        CHR 0xE4, CHR 0xBB, CHR 0x96, CHR 0xE8, CHR 0x80, CHR 0x85,
        CHR 0xE3, CHR 0x81, CHR 0xAF, CHR 0xE6, CHR 0x89, CHR 0x8B,
        CHR 0xE6, CHR 0x9C, CHR 0xAD]
       @ show_int n
       @ [CHR 0xE6, CHR 0x9E, CHR 0x9A, CHR 0xE3, CHR 0x81, CHR 0xBE,
        CHR 0xE3, CHR 0x81, CHR 0xA7, CHR 0xE6, CHR 0x8D, CHR 0xA8,
        CHR 0xE3, CHR 0x81, CHR 0xA6, CHR 0xE3, CHR 0x82, CHR 0x8B]),
    (''discard_draw'', \<lambda>n.
       [CHR 0xE5, CHR 0xA5, CHR 0xBD, CHR 0xE3, CHR 0x81, CHR 0x8D,
        CHR 0xE3, CHR 0x81, CHR 0xAA, CHR 0xE6, CHR 0x9E, CHR 0x9A,
        CHR 0xE6, CHR 0x95, CHR 0xB0, CHR 0xE3, CHR 0x82, CHR 0x92,
        CHR 0xE6, CHR 0x8D, CHR 0xA8, CHR 0xE3, CHR 0x81, CHR 0xA6,
        CHR 0xE3, CHR 0x80, CHR 0x81, CHR 0xE5, CHR 0x90, CHR 0x8C,
        CHR 0xE6, CHR 0x95, CHR 0xB0, CHR 0xE5, CHR 0xBC, CHR 0x95,
        CHR 0xE3, CHR 0x81, CHR 0x8F]),
    (''gain_card_up_to'', \<lambda>n.
       [CHR 0xE3, CHR 0x82, CHR 0xB3, CHR 0xE3, CHR 0x82, CHR 0xB9,
        CHR 0xE3, CHR 0x83, CHR 0x88]
       @ show_int n
       @ [CHR 0xE4, CHR 0xBB, CHR 0xA5, CHR 0xE4, CHR 0xB8, CHR 0x8B,
        CHR 0xE3, CHR 0x82, CHR 0x92, CHR 0xE7, CHR 0x8D, CHR 0xB2,
        CHR 0xE5, CHR 0xBE, CHR 0x97]),
    (''trash'', \<lambda>n.
       [CHR 0xE6, CHR 0x89, CHR 0x8B, CHR 0xE6, CHR 0x9C, CHR 0xAD]
       @ show_int n
       @ [CHR 0xE6, CHR 0x9E, CHR 0x9A, CHR 0xE3, CHR 0x81, CHR 0xBE,
        CHR 0xE3, CHR 0x81, CHR 0xA7, CHR 0xE5, CHR 0xBB, CHR 0x83,
        CHR 0xE6, CHR 0xA3, CHR 0x84]),
    (''trash_and_gain'', \<lambda>n.
       ''1''
       @ [CHR 0xE6, CHR 0x9E, CHR 0x9A, CHR 0xE5, CHR 0xBB, CHR 0x83,
        CHR 0xE6, CHR 0xA3, CHR 0x84, CHR 0xE2, CHR 0x86, CHR 0x92,
        CHR 0xE3, CHR 0x82, CHR 0xB3, CHR 0xE3, CHR 0x82, CHR 0xB9,
        CHR 0xE3, CHR 0x83, CHR 0x88]
       @ ''+''
       @ show_int n
       @ [CHR 0xE4, CHR 0xBB, CHR 0xA5, CHR 0xE4, CHR 0xB8, CHR 0x8B,
        CHR 0xE3, CHR 0x82, CHR 0x92, CHR 0xE7, CHR 0x8D, CHR 0xB2,
        CHR 0xE5, CHR 0xBE, CHR 0x97]),
    (''trash_treasure_gain_treasure'', \<lambda>n.
       [CHR 0xE8, CHR 0xB2, CHR 0xA1, CHR 0xE5, CHR 0xAE, CHR 0x9D,
        CHR 0xE5, CHR 0xBB, CHR 0x83, CHR 0xE6, CHR 0xA3, CHR 0x84,
        CHR 0xE2, CHR 0x86, CHR 0x92, CHR 0xE3, CHR 0x82, CHR 0xB3,
        CHR 0xE3, CHR 0x82, CHR 0xB9, CHR 0xE3, CHR 0x83, CHR 0x88]
       @ ''+''
       @ show_int n
       @ [CHR 0xE4, CHR 0xBB, CHR 0xA5, CHR 0xE4, CHR 0xB8, CHR 0x8B,
        CHR 0xE3, CHR 0x81, CHR 0xAE, CHR 0xE8, CHR 0xB2, CHR 0xA1,
        CHR 0xE5, CHR 0xAE, CHR 0x9D, CHR 0xE3, CHR 0x82, CHR 0x92,
        CHR 0xE6, CHR 0x89, CHR 0x8B, CHR 0xE6, CHR 0x9C, CHR 0xAD,
        CHR 0xE3, CHR 0x81, CHR 0xAB]),
    (''trash_copper_for_coin'', \<lambda>n.
       [CHR 0xE6, CHR 0x9C, CHR 0x80, CHR 0xE5, CHR 0xAE, CHR 0x89,
        CHR 0xE8, CHR 0xB2, CHR 0xA1, CHR 0xE5, CHR 0xAE, CHR 0x9D,
        CHR 0xE3, CHR 0x82, CHR 0x92, CHR 0xE5, CHR 0xBB, CHR 0x83,
        CHR 0xE6, CHR 0xA3, CHR 0x84, CHR 0xE3, CHR 0x81, CHR 0xA7]
       @ ''+''
       @ show_int n
       @ [CHR 0xE3, CHR 0x82, CHR 0xB3, CHR 0xE3, CHR 0x82, CHR 0xA4,
        CHR 0xE3, CHR 0x83, CHR 0xB3]),
    (''opponents_draw'', \<lambda>n.
       [CHR 0xE4, CHR 0xBB, CHR 0x96, CHR 0xE8, CHR 0x80, CHR 0x85]
       @ '': +''
       @ show_int n
       @ '' ''
       @ [CHR 0xE3, CHR 0x83, CHR 0x89, CHR 0xE3, CHR 0x83, CHR 0xAD,
        CHR 0xE3, CHR 0x83, CHR 0xBC]),
    (''gain_card_to_hand'', \<lambda>n.
       [CHR 0xE3, CHR 0x82, CHR 0xB3, CHR 0xE3, CHR 0x82, CHR 0xB9,
        CHR 0xE3, CHR 0x83, CHR 0x88]
       @ show_int n
       @ [CHR 0xE4, CHR 0xBB, CHR 0xA5, CHR 0xE4, CHR 0xB8, CHR 0x8B,
        CHR 0xE3, CHR 0x82, CHR 0x92, CHR 0xE6, CHR 0x89, CHR 0x8B,
        CHR 0xE6, CHR 0x9C, CHR 0xAD, CHR 0xE3, CHR 0x81, CHR 0xAB,
        CHR 0xE7, CHR 0x8D, CHR 0xB2, CHR 0xE5, CHR 0xBE, CHR 0x97]
       @ '', ''
       @ [CHR 0xE6, CHR 0x89, CHR 0x8B, CHR 0xE6, CHR 0x9C, CHR 0xAD]
       @ ''1''
       @ [CHR 0xE6, CHR 0x9E, CHR 0x9A, CHR 0xE3, CHR 0x82, CHR 0x92,
        CHR 0xE3, CHR 0x83, CHR 0x87, CHR 0xE3, CHR 0x83, CHR 0x83,
        CHR 0xE3, CHR 0x82, CHR 0xAD, CHR 0xE3, CHR 0x83, CHR 0x88,
        CHR 0xE3, CHR 0x83, CHR 0x83, CHR 0xE3, CHR 0x83, CHR 0x97,
        CHR 0xE3, CHR 0x81, CHR 0xAB]),
    (''topdeck_from_discard'', \<lambda>n.
       [CHR 0xE6, CHR 0x8D, CHR 0xA8, CHR 0xE3, CHR 0x81, CHR 0xA6,
        CHR 0xE6, CHR 0x9C, CHR 0xAD]
       @ ''1''
       @ [CHR 0xE6, CHR 0x9E, CHR 0x9A, CHR 0xE3, CHR 0x82, CHR 0x92,
        CHR 0xE3, CHR 0x83, CHR 0x87, CHR 0xE3, CHR 0x83, CHR 0x83,
        CHR 0xE3, CHR 0x82, CHR 0xAD, CHR 0xE3, CHR 0x83, CHR 0x88,
        CHR 0xE3, CHR 0x83, CHR 0x83, CHR 0xE3, CHR 0x83, CHR 0x97,
        CHR 0xE3, CHR 0x81, CHR 0xAB]),
    (''discard_top_play_action'', \<lambda>n.
       [CHR 0xE3, CHR 0x83, CHR 0x87, CHR 0xE3, CHR 0x83, CHR 0x83,
        CHR 0xE3, CHR 0x82, CHR 0xAD, CHR 0xE3, CHR 0x83, CHR 0x88,
        CHR 0xE3, CHR 0x83, CHR 0x83, CHR 0xE3, CHR 0x83, CHR 0x97]
       @ ''1''
       @ [CHR 0xE6, CHR 0x9E, CHR 0x9A, CHR 0xE3, CHR 0x82, CHR 0x92,
        CHR 0xE6, CHR 0x8D, CHR 0xA8, CHR 0xE3, CHR 0x81, CHR 0xA6,
        CHR 0xE6, CHR 0x9C, CHR 0xAD, CHR 0xE3, CHR 0x81, CHR 0xAB,
        CHR 0xE3, CHR 0x80, CHR 0x82, CHR 0xE3, CHR 0x82, CHR 0xA2,
        CHR 0xE3, CHR 0x82, CHR 0xAF, CHR 0xE3, CHR 0x82, CHR 0xB7,
        CHR 0xE3, CHR 0x83, CHR 0xA7, CHR 0xE3, CHR 0x83, CHR 0xB3,
        CHR 0xE3, CHR 0x81, CHR 0xAA, CHR 0xE3, CHR 0x82, CHR 0x89,
        CHR 0xE3, CHR 0x83, CHR 0x97, CHR 0xE3, CHR 0x83, CHR 0xAC,
        CHR 0xE3, CHR 0x82, CHR 0xA4, CHR 0xE5, CHR 0x8F, CHR 0xAF]),
    (''gain_treasure_topdeck_attack_victory'', \<lambda>n.
       [CHR 0xE3, CHR 0x82, CHR 0xB3, CHR 0xE3, CHR 0x82, CHR 0xB9,
        CHR 0xE3, CHR 0x83, CHR 0x88]
       @ show_int n
       @ [CHR 0xE3, CHR 0x81, CHR 0xAE, CHR 0xE8, CHR 0xB2, CHR 0xA1,
        CHR 0xE5, CHR 0xAE, CHR 0x9D, CHR 0xE3, CHR 0x82, CHR 0x92,
        CHR 0xE3, CHR 0x83, CHR 0x87, CHR 0xE3, CHR 0x83, CHR 0x83,
        CHR 0xE3, CHR 0x82, CHR 0xAD, CHR 0xE3, CHR 0x83, CHR 0x88,
        CHR 0xE3, CHR 0x83, CHR 0x83, CHR 0xE3, CHR 0x83, CHR 0x97,
        CHR 0xE3, CHR 0x81, CHR 0xAB, CHR 0xE7, CHR 0x8D, CHR 0xB2,
        CHR 0xE5, CHR 0xBE, CHR 0x97]
       @ '',''
       @ [CHR 0xE3, CHR 0x80, CHR 0x90, CHR 0xE6, CHR 0x94, CHR 0xBB,
        CHR 0xE6, CHR 0x92, CHR 0x83, CHR 0xE3, CHR 0x80, CHR 0x91,
        CHR 0xE4, CHR 0xBB, CHR 0x96, CHR 0xE8, CHR 0x80, CHR 0x85,
        CHR 0xE3, CHR 0x81, CHR 0xAF, CHR 0xE5, CHR 0x8B, CHR 0x9D,
        CHR 0xE5, CHR 0x88, CHR 0xA9, CHR 0xE7, CHR 0x82, CHR 0xB9,
        CHR 0xE3, CHR 0x82, CHR 0x92, CHR 0xE3, CHR 0x83, CHR 0x87,
        CHR 0xE3, CHR 0x83, CHR 0x83, CHR 0xE3, CHR 0x82, CHR 0xAD,
        CHR 0xE3, CHR 0x83, CHR 0x88, CHR 0xE3, CHR 0x83, CHR 0x83,
        CHR 0xE3, CHR 0x83, CHR 0x97, CHR 0xE3, CHR 0x81, CHR 0xAB]),
    (''reveal_trash_discard_topdeck'', \<lambda>n.
       [CHR 0xE3, CHR 0x83, CHR 0x87, CHR 0xE3, CHR 0x83, CHR 0x83,
        CHR 0xE3, CHR 0x82, CHR 0xAD, CHR 0xE3, CHR 0x83, CHR 0x88,
        CHR 0xE3, CHR 0x83, CHR 0x83, CHR 0xE3, CHR 0x83, CHR 0x97]
       @ show_int n
       @ [CHR 0xE6, CHR 0x9E, CHR 0x9A, CHR 0xE3, CHR 0x82, CHR 0x92,
        CHR 0xE5, CHR 0x85, CHR 0xAC, CHR 0xE9, CHR 0x96, CHR 0x8B,
        CHR 0xE3, CHR 0x81, CHR 0x97, CHR 0xE3, CHR 0x80, CHR 0x81,
        CHR 0xE5, CHR 0x90, CHR 0x84, CHR 0xE3, CHR 0x80, CHR 0x85,
        CHR 0xE5, CHR 0xBB, CHR 0x83, CHR 0xE6, CHR 0xA3, CHR 0x84]
       @ ''/''
       @ [CHR 0xE6, CHR 0x8D, CHR 0xA8, CHR 0xE3, CHR 0x81, CHR 0xA6]
       @ ''/''
       @ [CHR 0xE6, CHR 0x88, CHR 0xBB, CHR 0xE3, CHR 0x81, CHR 0x99])
  ]"

definition block_attack_line :: string where
  "block_attack_line =
     [CHR 0xE6, CHR 0x94, CHR 0xBB, CHR 0xE6, CHR 0x92, CHR 0x83,
      CHR 0xE3, CHR 0x82, CHR 0x92, CHR 0xE7, CHR 0x84, CHR 0xA1,
      CHR 0xE5, CHR 0x8A, CHR 0xB9, CHR 0xE5, CHR 0x8C, CHR 0x96]"

definition effectLabels :: "string \<rightharpoonup> (int \<Rightarrow> string)" where
  "effectLabels = map_of effectLabels_entries"

text \<open>
  \<^verbatim>\<open>const fn = effectLabels[ef.type]; return fn ? fn(ef.amount ?? 0) : null\<close>.
  For a tag that names a member of \<^verbatim>\<open>Object.prototype\<close>, \<open>fn\<close> is that member, it is
  truthy, and it is called as a plain function of one number; the file is a module,
  hence strict code, and \<^verbatim>\<open>this\<close> is \<^verbatim>\<open>undefined\<close> in the call:
  \<^item> \<^verbatim>\<open>toString\<close> returns the string \<^verbatim>\<open>[object Undefined]\<close>;
  \<^item> \<^verbatim>\<open>isPrototypeOf\<close> returns \<^verbatim>\<open>false\<close>, its argument being no object;
  \<^item> \<^verbatim>\<open>constructor\<close> is \<^verbatim>\<open>Object\<close>, which wraps the number in a Number object;
  \<^item> \<^verbatim>\<open>__proto__\<close> is an object, not a function: calling it throws a TypeError;
  \<^item> every other member converts \<^verbatim>\<open>this\<close> to an object first, which throws a
    TypeError on \<^verbatim>\<open>undefined\<close>.
  None of the results is \<^verbatim>\<open>null\<close>, so the filter keeps each of them as a line.
\<close>

datatype js_error = TypeError

datatype js_value = JString string | JBoolean bool | JNumberObject int

definition call_prototype_member :: "string \<Rightarrow> int \<Rightarrow> js_error + js_value" where
  "call_prototype_member k n =
     (if k = ''toString'' then Inr (JString ''[object Undefined]'')
      else if k = ''isPrototypeOf'' then Inr (JBoolean False)
      else if k = ''constructor'' then Inr (JNumberObject n)
      else Inl TypeError)"

definition effect_line :: "CardEffect \<Rightarrow> js_error + js_value option" where
  "effect_line ef =
     (let n = (case amount ef of None \<Rightarrow> 0 | Some a \<Rightarrow> a) in
      case js_get effectLabels (ef_type ef) of
        Own fn \<Rightarrow> Inr (Some (JString (fn n)))
      | Inherited k \<Rightarrow>
          (case call_prototype_member k n of Inl e \<Rightarrow> Inl e | Inr v \<Rightarrow> Inr (Some v))
      | Undefined \<Rightarrow> Inr None)"

text \<open>\<^verbatim>\<open>effects.map(...)\<close>, left to right; an exception ends the whole call.\<close>

fun map_effects :: "CardEffect list \<Rightarrow> js_error + js_value option list" where
  "map_effects [] = Inr []"
| "map_effects (ef # efs) =
     (case effect_line ef of
        Inl e \<Rightarrow> Inl e
      | Inr l \<Rightarrow> (case map_effects efs of Inl e \<Rightarrow> Inl e | Inr ls \<Rightarrow> Inr (l # ls)))"

text \<open>
  The effect list that is mapped: \<^verbatim>\<open>c.effects || []\<close>, and for a card without effects
  the one effect made from its \<^verbatim>\<open>coin_value\<close> (a treasure) or its \<^verbatim>\<open>victory_points\<close>
  (a victory card).
\<close>

definition effects_to_show :: "card_value \<Rightarrow> CardEffect list" where
  "effects_to_show c =
     (let efs = cv_effects c in
      if length efs = 0 then
        (if cv_type c = Some Treasure \<and> cv_coin_value c \<noteq> None
           then [\<lparr> ef_type = ''coin_value'', amount = cv_coin_value c \<rparr>]
         else if cv_type c = Some Victory \<and> cv_victory_points c \<noteq> None
           then [\<lparr> ef_type = ''victory_points'', amount = cv_victory_points c \<rparr>]
         else efs)
      else efs)"

definition buildEffectLines :: "card_value \<Rightarrow> js_error + js_value list" where
  "buildEffectLines c =
     (case map_effects (effects_to_show c) of
        Inl e \<Rightarrow> Inl e
      | Inr ls \<Rightarrow>
          Inr (List.map_filter (\<lambda>l. l) ls
               @ (if cv_reaction c = Some ''block_attack''
                  then [JString block_attack_line] else [])))"

section \<open>The game board (components/Game: GameBoard, Hand, ActionsBar, Supply)\<close>

text \<open>
  Sources: GameBoard.tsx is the second file of
  \<^verbatim>\<open>src/frontend/src/components/Game/Hand.tsx\<close> (from line 65), Hand.tsx the first;
  ActionsBar.tsx is \<^verbatim>\<open>src/unnamed/part_004\<close> and Supply.tsx is \<^verbatim>\<open>src/unnamed/part_006\<close>.

  GameBoard.tsx: \<^verbatim>\<open>me = gameState.players.find(p => p.id === playerId)\<close>, and whether
  the pending action is one this client answers by selecting cards of the hand.
\<close>

definition find_me :: "GameState \<Rightarrow> string option \<Rightarrow> PlayerState option" where
  "find_me gs playerId = List.find (\<lambda>p. Some (ps_id p) = playerId) (players gs)"

definition DISCARD_TYPES :: "string list" where
  "DISCARD_TYPES =
     [''attack_discard'', ''discard_draw'', ''trash'', ''trash_and_gain'',
      ''trash_treasure_gain_treasure'', ''topdeck_from_hand'']"

definition isMyPa :: "GameState \<Rightarrow> string option \<Rightarrow> bool" where
  "isMyPa gs playerId =
     (case pending_action gs of
        None \<Rightarrow> False
      | Some pa \<Rightarrow>
          undef_eq_null (player_id pa) playerId
          \<or> (pa_type pa = ''attack_discard''
              \<and> undef_eq_null (target_player_id pa) playerId))"

definition paType :: "GameState \<Rightarrow> string" where
  "paType gs = (case pending_action gs of None \<Rightarrow> [] | Some pa \<Rightarrow> pa_type pa)"

definition discardMode :: "GameState \<Rightarrow> string option \<Rightarrow> bool" where
  "discardMode gs playerId = (isMyPa gs playerId \<and> paType gs \<in> set DISCARD_TYPES)"

text \<open>
  What a click does: it toggles a selection of the component's own, or it calls
  \<^verbatim>\<open>send\<close> with an action envelope.
\<close>

datatype ui_event = ToggleDiscard nat | Send client_action

text \<open>
  Hand.tsx, \<^verbatim>\<open>handleClick\<close> of the card \<open>cid\<close> at index \<open>idx\<close> of the hand; the
  component's properties are its arguments.
\<close>

definition Hand_handleClick ::
  "GameState \<Rightarrow> string option \<Rightarrow> PlayerState option \<Rightarrow> (string \<Rightarrow> card_value) \<Rightarrow> bool
   \<Rightarrow> string \<Rightarrow> nat \<Rightarrow> ui_event option" where
  "Hand_handleClick gs playerId me get_card discard_mode cid idx =
     (let myTurn = (current_player gs = playerId); c = get_card cid in
      if discard_mode then Some (ToggleDiscard idx)
      else if myTurn \<and> cv_type c = Some Action \<and> phase gs = ''action''
              \<and> num_or0 (map_option actions me) > 0
        then Some (Send (PlayAction cid))
      else if myTurn \<and> cv_type c = Some Treasure
              \<and> (phase gs = ''action'' \<or> phase gs = ''buy'')
        then Some (Send (PlayTreasure cid))
      else None)"

text \<open>
  The hand as GameBoard renders it: one card per entry of \<^verbatim>\<open>me?.hand || []\<close>, so a
  click needs an index inside the hand.
\<close>

definition hand_of :: "PlayerState option \<Rightarrow> string list" where
  "hand_of me = (case me of None \<Rightarrow> [] | Some p \<Rightarrow> (case hand p of None \<Rightarrow> [] | Some h \<Rightarrow> h))"

definition board_hand_click ::
  "GameState \<Rightarrow> string option \<Rightarrow> card_defs \<Rightarrow> nat \<Rightarrow> ui_event option" where
  "board_hand_click gs playerId cardDefs idx =
     (let me = find_me gs playerId; h = hand_of me in
      if idx < length h
      then Hand_handleClick gs playerId me (getCard cardDefs) (discardMode gs playerId)
             (h ! idx) idx
      else None)"

text \<open>ActionsBar.tsx: the buttons shown, each as the action its click sends.\<close>

definition ActionsBar :: "GameState \<Rightarrow> string option \<Rightarrow> client_action list" where
  "ActionsBar gs playerId =
     (if current_player gs \<noteq> playerId then []
      else (if phase gs = ''action'' then [SkipAction] else [])
         @ (if phase gs = ''action'' \<or> phase gs = ''buy'' then [PlayAllTreasures] else [])
         @ (if phase gs = ''buy'' \<or> phase gs = ''action'' then [EndTurn] else []))"

text \<open>
  Supply.tsx, \<^verbatim>\<open>renderCard(cid, count)\<close> for an entry of the supply: the pile is
  clickable when \<open>canBuy\<close> or \<open>canGain\<close>, and its click sends the gain selection
  when \<open>canGain\<close>, else the buy.
\<close>

definition gainType :: "GameState \<Rightarrow> string option" where
  "gainType gs = map_option pa_type (pending_action gs)"

definition isGainMode :: "GameState \<Rightarrow> string option \<Rightarrow> bool" where
  "isGainMode gs playerId =
     ((gainType gs = Some ''gain'' \<or> gainType gs = Some ''gain_to_hand''
        \<or> gainType gs = Some ''gain_treasure_to_hand'')
      \<and> undef_eq_null (case pending_action gs of None \<Rightarrow> None | Some pa \<Rightarrow> player_id pa)
            playerId)"

definition maxCost :: "GameState \<Rightarrow> int" where
  "maxCost gs =
     (case pending_action gs of
        None \<Rightarrow> 0
      | Some pa \<Rightarrow> (case max_cost pa of None \<Rightarrow> 0 | Some m \<Rightarrow> m))"

definition canBuy ::
  "GameState \<Rightarrow> string option \<Rightarrow> PlayerState option \<Rightarrow> card_value \<Rightarrow> int \<Rightarrow> bool" where
  "canBuy gs playerId me c count =
     (current_player gs = playerId \<and> phase gs = ''buy''
      \<and> num_or0 (map_option coins me) \<ge> cv_cost_or0 c
      \<and> count > 0 \<and> num_or0 (map_option buys me) > 0)"

definition canGain :: "GameState \<Rightarrow> string option \<Rightarrow> card_value \<Rightarrow> int \<Rightarrow> bool" where
  "canGain gs playerId c count =
     (isGainMode gs playerId \<and> count > 0 \<and> cv_cost_or0 c \<le> maxCost gs
      \<and> (gainType gs \<noteq> Some ''gain_treasure_to_hand'' \<or> cv_type c = Some Treasure))"

definition Supply_click ::
  "GameState \<Rightarrow> string option \<Rightarrow> PlayerState option \<Rightarrow> (string \<Rightarrow> card_value)
   \<Rightarrow> string \<Rightarrow> int \<Rightarrow> client_action option" where
  "Supply_click gs playerId me get_card cid count =
     (let c = get_card cid in
      if canBuy gs playerId me c count \<or> canGain gs playerId c count
      then Some (if canGain gs playerId c count then GainSelection cid else Buy cid)
      else None)"

definition board_supply_click ::
  "GameState \<Rightarrow> string option \<Rightarrow> card_defs \<Rightarrow> string \<Rightarrow> int
   \<Rightarrow> client_action option" where
  "board_supply_click gs playerId cardDefs cid count =
     Supply_click gs playerId (find_me gs playerId) (getCard cardDefs) cid count"

text \<open>
  Whether the pile can be selected at all: \<^verbatim>\<open>clickable={canBuy || canGain}\<close> (Supply.tsx
  line 56), the property under which SupplyCard.tsx attaches the click handler
  (\<^verbatim>\<open>onClick={clickable ? onClick : undefined}\<close>, line 50) and styles the pile as
  clickable.
\<close>

definition Supply_clickable ::
  "GameState \<Rightarrow> string option \<Rightarrow> PlayerState option \<Rightarrow> (string \<Rightarrow> card_value)
   \<Rightarrow> string \<Rightarrow> int \<Rightarrow> bool" where
  "Supply_clickable gs playerId me get_card cid count =
     (let c = get_card cid in
      canBuy gs playerId me c count \<or> canGain gs playerId c count)"

definition board_supply_clickable ::
  "GameState \<Rightarrow> string option \<Rightarrow> card_defs \<Rightarrow> string \<Rightarrow> int \<Rightarrow> bool" where
  "board_supply_clickable gs playerId cardDefs cid count =
     Supply_clickable gs playerId (find_me gs playerId) (getCard cardDefs) cid count"

text \<open>
  \<open>board_hand_click\<close>, \<open>board_supply_click\<close> and \<open>board_supply_clickable\<close> describe the
  handler that the code attaches to a card of the hand and to a pile. The handler is
  on the page only when the board has rendered: while rendering, Hand.tsx (line 36)
  and SupplyCard.tsx (line 38) call \<^verbatim>\<open>buildEffectLines(c)\<close> for every card they show,
  and an exception raised there unmounts the board, after which nothing can be
  clicked. The rendering is not part of these functions, so they offer at least what
  the page offers: they bound what a click can send, and they do not show by
  themselves that a click is possible. The example states of the next section show
  only cards of the example catalog, whose effect lines are built without an
  exception.
\<close>

text \<open>
  Every action the hand, the actions bar and the supply offer in a state: the sends
  of the clicks on each card of the hand, the buttons of the bar, and the sends of
  the clicks on each pile.
\<close>

definition offered_moves ::
  "GameState \<Rightarrow> string option \<Rightarrow> card_defs \<Rightarrow> client_action list" where
  "offered_moves gs playerId cardDefs =
     List.map_filter
       (\<lambda>idx. case board_hand_click gs playerId cardDefs idx of
                 Some (Send a) \<Rightarrow> Some a | _ \<Rightarrow> None)
       [0 ..< length (hand_of (find_me gs playerId))]
     @ ActionsBar gs playerId
     @ List.map_filter (\<lambda>(cid, count). board_supply_click gs playerId cardDefs cid count)
         (supply_piles gs)"

section \<open>Example catalog and states\<close>

text \<open>
  A small catalog and four snapshots of a two-player game, as the server sends them
  to the first player: on that player's turn in the action phase, in the buy phase
  with 5 coins and 1 buy in front of a pile of cost 5 with 8 cards left, in the
  action phase with a gain of a treasure of cost at most 3 pending for that player,
  and in the buy phase with that gain pending.
\<close>

definition copper :: Card where
  "copper = \<lparr> card_id = ''copper'', card_name = ''Copper'', name_en = None,
      card_type = Treasure, subtype = None, cost = 0, coin_value = Some 1,
      victory_points = None, description = None, icon = None, effects = [],
      reaction = None \<rparr>"

definition village :: Card where
  "village = \<lparr> card_id = ''village'', card_name = ''Village'', name_en = None,
      card_type = Action, subtype = None, cost = 3, coin_value = None,
      victory_points = None, description = None, icon = None,
      effects = [\<lparr> ef_type = ''draw'', amount = Some 1 \<rparr>,
                 \<lparr> ef_type = ''action'', amount = Some 2 \<rparr>],
      reaction = None \<rparr>"

definition market :: Card where
  "market = \<lparr> card_id = ''market'', card_name = ''Market'', name_en = None,
      card_type = Action, subtype = None, cost = 5, coin_value = None,
      victory_points = None, description = None, icon = None,
      effects = [\<lparr> ef_type = ''draw'', amount = Some 1 \<rparr>,
                 \<lparr> ef_type = ''action'', amount = Some 1 \<rparr>,
                 \<lparr> ef_type = ''buy'', amount = Some 1 \<rparr>,
                 \<lparr> ef_type = ''coin'', amount = Some 1 \<rparr>],
      reaction = None \<rparr>"

definition silver :: Card where
  "silver = \<lparr> card_id = ''silver'', card_name = ''Silver'', name_en = None,
      card_type = Treasure, subtype = None, cost = 3, coin_value = Some 2,
      victory_points = None, description = None, icon = None, effects = [],
      reaction = None \<rparr>"

definition example_cards :: "Card list" where
  "example_cards = [copper, village, market, silver]"

definition example_catalog :: card_defs where
  "example_catalog = load_cards example_cards"

definition first_player :: PlayerState where
  "first_player = \<lparr> ps_id = ''p1'', ps_name = ''Ann'', hand_count = 2, deck_count = 5,
      discard_count = 3, play_area = [], actions = 1, buys = 1, coins = 5,
      connected = True, hand = Some [''copper'', ''village''],
      discard_pile = Some [''copper'', ''copper'', ''copper''] \<rparr>"

definition second_player :: PlayerState where
  "second_player = \<lparr> ps_id = ''p2'', ps_name = ''Bob'', hand_count = 5, deck_count = 5,
      discard_count = 0, play_area = [], actions = 1, buys = 1, coins = 0,
      connected = True, hand = None, discard_pile = None \<rparr>"

definition action_state :: GameState where
  "action_state = \<lparr> game_id = ''g1'', started = True, phase = ''action'',
      current_player = Some ''p1'', current_player_name = Some ''Ann'',
      supply_piles = [(''copper'', 46), (''silver'', 40), (''village'', 10), (''market'', 8)],
      trash = [], game_log = [], players = [first_player, second_player],
      pending_action = None, scores = None \<rparr>"

definition buy_state :: GameState where
  "buy_state = action_state \<lparr> phase := ''buy'' \<rparr>"

definition gain_pending :: PendingAction where
  "gain_pending = \<lparr> pa_type = ''gain_treasure_to_hand'', player_id = Some ''p1'',
      target_player_id = None, attacker_id = None, discard_to = None, max_cards = None,
      max_cost = Some 3, revealed_card = None, revealed_cards = None \<rparr>"

definition gain_state :: GameState where
  "gain_state = action_state \<lparr> pending_action := Some gain_pending \<rparr>"

definition buy_gain_state :: GameState where
  "buy_gain_state = buy_state \<lparr> pending_action := Some gain_pending \<rparr>"

section \<open>The sentry prompt (components/Game/DiscardPrompt.tsx, SentryPrompt)\<close>

text \<open>
  Source: DiscardPrompt.tsx is the second file of \<^verbatim>\<open>src/frontend/src/api.ts\<close>;
  \<^verbatim>\<open>handleAction\<close> is at lines 134 to 143.

  \<^verbatim>\<open>sentryDecisions: Record<number, string>\<close> is the choice made so far for each index
  of the revealed cards. \<^verbatim>\<open>handleAction(idx, action)\<close> records a choice, and when
  \<^verbatim>\<open>cards.every((_, i) => updated[i] != null)\<close> it clears the record and calls
  \<^verbatim>\<open>onSentryDecision\<close> with one \<^verbatim>\<open>{card_id, action}\<close> per revealed card, which sends the
  \<^verbatim>\<open>sentry_decision\<close> envelope. The result is the new record and the envelope sent, if
  any.
\<close>

definition SentryPrompt_handleAction ::
  "string list \<Rightarrow> (nat \<rightharpoonup> string) \<Rightarrow> nat \<Rightarrow> string
   \<Rightarrow> (nat \<rightharpoonup> string) \<times> client_action option" where
  "SentryPrompt_handleAction cards sentryDecisions idx action =
     (let updated = sentryDecisions(idx \<mapsto> action) in
      if list_all (\<lambda>i. updated i \<noteq> None) [0 ..< length cards]
      then (Map.empty,
            Some (SentryDecision
                    (map (\<lambda>(cid, i). (cid, the (updated i)))
                       (zip cards [0 ..< length cards]))))
      else (updated, None))"

text \<open>
  The prompt renders three buttons per revealed card, which call
  \<^verbatim>\<open>handleAction(i, 'trash')\<close>, \<^verbatim>\<open>handleAction(i, 'discard')\<close> and
  \<^verbatim>\<open>handleAction(i, 'topdeck')\<close>; nothing else calls it.
\<close>

definition sentry_choices :: "string list" where
  "sentry_choices = [''trash'', ''discard'', ''topdeck'']"

definition sentry_buttons :: "string list \<Rightarrow> (nat \<times> string) list" where
  "sentry_buttons cards =
     concat (map (\<lambda>i. map (\<lambda>a. (i, a)) sentry_choices) [0 ..< length cards])"

text \<open>The envelopes sent over a sequence of clicks, from a given record of choices.\<close>

fun sentry_clicks ::
  "string list \<Rightarrow> (nat \<rightharpoonup> string) \<Rightarrow> (nat \<times> string) list \<Rightarrow> client_action list" where
  "sentry_clicks cards d [] = []"
| "sentry_clicks cards d ((idx, action) # cs) =
     (case SentryPrompt_handleAction cards d idx action of
        (d', out) \<Rightarrow>
          (case out of None \<Rightarrow> [] | Some m \<Rightarrow> [m]) @ sentry_clicks cards d' cs)"

text \<open>
  A complete response to the prompt: a \<^verbatim>\<open>sentry_decision\<close> with one decision per
  revealed card, the cards in the order of the revealed list, and each decision one
  of the three choices.
\<close>

definition complete_response :: "string list \<Rightarrow> client_action \<Rightarrow> bool" where
  "complete_response cards m =
     (case m of
        SentryDecision ds \<Rightarrow>
          map fst ds = cards \<and> list_all (\<lambda>x. snd x \<in> set sentry_choices) ds
      | _ \<Rightarrow> False)"

section \<open>The client's message handler (hooks/useGameState.ts)\<close>

text \<open>
  Source: useGameState.ts is the second file of \<^verbatim>\<open>src/unnamed/part_000\<close>; the handler
  \<^verbatim>\<open>onMessage\<close> is at lines 83 to 97.

  The state of \<^verbatim>\<open>useGameState\<close> that the message handler reads and writes, with the
  session storage of the browser. The timer that clears the toast 2.5 seconds after
  it is shown is outside the handler's result and is left out.
\<close>

record client =
  cl_screen :: Screen
  cl_gameState :: "GameState option"
  cl_playerId :: "string option"
  cl_toast :: "string option"
  cl_storage :: "string \<rightharpoonup> string"

definition storage_key :: "string \<Rightarrow> string" where
  "storage_key gid = ''pid_'' @ gid"

text \<open>
  \<^verbatim>\<open>onMessage\<close>: a \<^verbatim>\<open>joined\<close> message with a player id and a game id stores the id, in
  the state and in the session storage under \<^verbatim>\<open>pid_<game id>\<close>; a \<^verbatim>\<open>state\<close> message
  with a state replaces the held state and chooses the screen; an \<^verbatim>\<open>error\<close> message
  with a text shows the text as the toast; any other message changes nothing.
\<close>

definition onMessage :: "client \<Rightarrow> WSMessage \<Rightarrow> client" where
  "onMessage st msg =
     (if msg_type msg = Joined \<and> truthy (msg_player_id msg) \<and> truthy (msg_game_id msg)
      then st \<lparr> cl_playerId := msg_player_id msg,
                 cl_storage := (cl_storage st)
                    (storage_key (the (msg_game_id msg)) \<mapsto> the (msg_player_id msg)) \<rparr>
      else if msg_type msg = State \<and> msg_state msg \<noteq> None
      then st \<lparr> cl_gameState := msg_state msg,
                 cl_screen := (if \<not> started (the (msg_state msg)) then Waiting else Game) \<rparr>
      else if msg_type msg = Error \<and> truthy (msg_message msg)
      then st \<lparr> cl_toast := msg_message msg \<rparr>
      else st)"

definition error_message :: "string option \<Rightarrow> WSMessage" where
  "error_message text =
     \<lparr> msg_type = Error, msg_player_id = None, msg_game_id = None, msg_state = None,
       msg_message = text \<rparr>"

definition state_message :: "GameState \<Rightarrow> WSMessage" where
  "state_message s =
     \<lparr> msg_type = State, msg_player_id = None, msg_game_id = None, msg_state = Some s,
       msg_message = None \<rparr>"

definition example_client :: client where
  "example_client =
     \<lparr> cl_screen = Game, cl_gameState = Some action_state, cl_playerId = Some ''p1'',
       cl_toast = None, cl_storage = [''pid_g1'' \<mapsto> ''p1''] \<rparr>"

section \<open>The engine, from the specification\<close>

text \<open>
  Modelled from the spec: the server of the repository (\<^verbatim>\<open>server.py\<close> and
  \<^verbatim>\<open>game_engine.py\<close> in the README's file list) is not among the sources, which hold
  the web client only. The definitions of this section follow the specification's
  sections 3 (data model), 4.1 (turn and phase machine), 6 (interfaces) and 7 (error
  handling); each says which sentences it renders.
\<close>

text \<open>Modelled from the spec: the phases of section 3, \<^verbatim>\<open>{action, buy, cleanup, game_over}\<close>.\<close>

datatype engine_phase = ActionPhase | BuyPhase | CleanupPhase | GameOverPhase

text \<open>
  Modelled from the spec: the Player of section 3: stable id, display name, connected
  flag, ordered hand, deck, discard pile, play area, and the counters actions, buys
  and coins.
\<close>

record engine_player =
  pl_id :: string
  pl_name :: string
  pl_connected :: bool
  pl_hand :: "string list"
  pl_deck :: "string list"
  pl_discard :: "string list"
  pl_play_area :: "string list"
  pl_actions :: int
  pl_buys :: int
  pl_coins :: int

text \<open>
  Modelled from the spec: the Room of section 3: id, ordered player list, current
  player index, phase, the supply (a mapping from card id to remaining count), trash
  pile, log, at most one pending action, started flag.
\<close>

record room =
  rm_id :: string
  rm_players :: "engine_player list"
  rm_current :: nat
  rm_phase :: engine_phase
  rm_supply :: "string \<rightharpoonup> int"
  rm_trash :: "string list"
  rm_log :: "string list"
  rm_pending :: "PendingAction option"
  rm_started :: bool

text \<open>
  Modelled from the spec: the caller errors of section 7 (illegal action for the
  current phase, turn or responder, insufficient actions, buys or coins, a card
  absent from its zone, an empty pile, an unknown name).
\<close>

datatype reject =
    NotYourTurn | WrongPhase | DecisionPending | UnknownCard | NotEnoughCoins
  | NoBuysLeft | PileEmpty | NoActionsLeft | CardNotInHand | NotAnActionCard
  | UnknownAction

text \<open>
  Modelled from the spec: \<^verbatim>\<open>current_player\<close> indexes a slot of the rotation
  (section 3).
\<close>

definition current_player_of :: "room \<Rightarrow> engine_player option" where
  "current_player_of r =
     (if rm_current r < length (rm_players r) then Some (rm_players r ! rm_current r)
      else None)"

text \<open>
  Modelled from the spec: the buy of section 4.1. An action must be legal for the
  current phase and player (sections 2 and 7), and normal flow is suspended while a
  decision is pending (section 2); "each buy checks coins \<ge> cost, buys > 0, and pile
  count > 0; on success it decrements buys and pile count and appends the card to
  the buyer's discard"; the coins fall by the cost (scenario A of section 8: 5 coins
  and a pile of cost 5 leave 0 coins). A rejected buy leaves the room as it was.
\<close>

definition engine_buy :: "(string \<rightharpoonup> Card) \<Rightarrow> room \<Rightarrow> string \<Rightarrow> string \<Rightarrow> reject + room" where
  "engine_buy catalog r pid cid =
     (case current_player_of r of
        None \<Rightarrow> Inl NotYourTurn
      | Some p \<Rightarrow>
          if pl_id p \<noteq> pid then Inl NotYourTurn
          else if rm_phase r \<noteq> BuyPhase then Inl WrongPhase
          else if rm_pending r \<noteq> None then Inl DecisionPending
          else (case catalog cid of
                  None \<Rightarrow> Inl UnknownCard
                | Some c \<Rightarrow>
                    (case rm_supply r cid of
                       None \<Rightarrow> Inl PileEmpty
                     | Some n \<Rightarrow>
                         if pl_coins p < cost c then Inl NotEnoughCoins
                         else if pl_buys p \<le> 0 then Inl NoBuysLeft
                         else if n \<le> 0 then Inl PileEmpty
                         else Inr (r \<lparr> rm_players := (rm_players r)
                                         [rm_current r :=
                                            p \<lparr> pl_coins := pl_coins p - cost c,
                                                pl_buys := pl_buys p - 1,
                                                pl_discard := pl_discard p @ [cid] \<rparr>],
                                       rm_supply := (rm_supply r)(cid \<mapsto> n - 1) \<rparr>))))"

text \<open>
  Modelled from the spec: playing an action card, section 4.1: "in action, the active
  player may play an action card (consuming one action, unless a future rule
  explicitly grants more)". The card leaves the hand for the play area (section 3:
  the play area holds the cards played this turn), one action is consumed, and the
  card's effects then run in the interpreter of section 4.3, which is the parameter
  \<open>run_effects\<close>: it may grant actions back.
\<close>

definition engine_play_action ::
  "(string \<rightharpoonup> Card) \<Rightarrow> (Card \<Rightarrow> room \<Rightarrow> room) \<Rightarrow> room \<Rightarrow> string \<Rightarrow> string
   \<Rightarrow> reject + room" where
  "engine_play_action catalog run_effects r pid cid =
     (case current_player_of r of
        None \<Rightarrow> Inl NotYourTurn
      | Some p \<Rightarrow>
          if pl_id p \<noteq> pid then Inl NotYourTurn
          else if rm_phase r \<noteq> ActionPhase then Inl WrongPhase
          else if rm_pending r \<noteq> None then Inl DecisionPending
          else (case catalog cid of
                  None \<Rightarrow> Inl UnknownCard
                | Some c \<Rightarrow>
                    if card_type c \<noteq> Action then Inl NotAnActionCard
                    else if cid \<notin> set (pl_hand p) then Inl CardNotInHand
                    else if pl_actions p \<le> 0 then Inl NoActionsLeft
                    else Inr (run_effects c
                           (r \<lparr> rm_players := (rm_players r)
                                  [rm_current r :=
                                     p \<lparr> pl_actions := pl_actions p - 1,
                                         pl_hand := remove1 cid (pl_hand p),
                                         pl_play_area := pl_play_area p @ [cid] \<rparr>] \<rparr>))))"

text \<open>
  Modelled from the spec: the outbound side of the room actor, section 6: "on every
  accepted action, a full state snapshot is sent to each connection in the room";
  "on a rejected action, only the originating connection receives an error message;
  no broadcast occurs and state is unchanged". The validation and the effect of the
  action (\<open>apply_action\<close>), the text of an error (\<open>describe\<close>) and the snapshot made for
  a player (\<open>snapshot\<close>) are parameters; \<open>conns\<close> lists the connections of the room, each
  with the id of its player. The result is the room and the messages sent, each with
  the connection it is sent to.
\<close>

definition room_dispatch ::
  "(room \<Rightarrow> string \<Rightarrow> client_action \<Rightarrow> reject + room) \<Rightarrow> (reject \<Rightarrow> string)
   \<Rightarrow> (room \<Rightarrow> string \<Rightarrow> GameState) \<Rightarrow> (nat \<times> string) list \<Rightarrow> room
   \<Rightarrow> nat \<Rightarrow> string \<Rightarrow> client_action \<Rightarrow> room \<times> (nat \<times> WSMessage) list" where
  "room_dispatch apply_action describe snapshot conns r origin pid act =
     (case apply_action r pid act of
        Inl e \<Rightarrow> (r, [(origin, error_message (Some (describe e)))])
      | Inr r' \<Rightarrow> (r', map (\<lambda>(conn, q). (conn, state_message (snapshot r' q))) conns))"

text \<open>
  Modelled from the spec: the card catalog of section 2, loaded once and never
  mutated; here the example cards by their ids.
\<close>

definition server_catalog :: "string \<rightharpoonup> Card" where
  "server_catalog = map_of (map (\<lambda>c. (card_id c, c)) example_cards)"

text \<open>
  Modelled from the spec: scenario A of section 8, a two-player game in the buy phase
  whose active player has 5 coins and 1 buy, and a pile of cost 5 with 8 cards left.
\<close>

definition scenario_A :: room where
  "scenario_A =
     \<lparr> rm_id = ''g1'',
       rm_players =
         [\<lparr> pl_id = ''p1'', pl_name = ''Ann'', pl_connected = True,
            pl_hand = [''village''], pl_deck = [''copper'', ''copper''],
            pl_discard = [''copper''], pl_play_area = [''copper'', ''silver'', ''silver''],
            pl_actions = 1, pl_buys = 1, pl_coins = 5 \<rparr>,
          \<lparr> pl_id = ''p2'', pl_name = ''Bob'', pl_connected = True,
            pl_hand = [''copper'', ''copper'', ''copper'', ''copper'', ''copper''],
            pl_deck = [''copper'', ''copper''], pl_discard = [], pl_play_area = [],
            pl_actions = 1, pl_buys = 1, pl_coins = 0 \<rparr>],
       rm_current = 0, rm_phase = BuyPhase,
       rm_supply = [''copper'' \<mapsto> 46, ''silver'' \<mapsto> 38, ''village'' \<mapsto> 9, ''market'' \<mapsto> 8],
       rm_trash = [], rm_log = [], rm_pending = None, rm_started = True \<rparr>"

text \<open>
  Modelled from the spec: the same room in the action phase, and an interpreter that
  grants the actions of the card's \<^verbatim>\<open>action\<close> effects to the current player and does
  nothing else, for the examples.
\<close>

definition scenario_action :: room where
  "scenario_action = scenario_A \<lparr> rm_phase := ActionPhase \<rparr>"

definition grant_actions :: "Card \<Rightarrow> room \<Rightarrow> room" where
  "grant_actions c r =
     r \<lparr> rm_players := (rm_players r)
            [rm_current r :=
               (rm_players r ! rm_current r)
                 \<lparr> pl_actions := pl_actions (rm_players r ! rm_current r)
                      + sum_list (map (\<lambda>ef. case amount ef of None \<Rightarrow> 0 | Some a \<Rightarrow> a)
                                    (filter (\<lambda>ef. ef_type ef = ''action'') (effects c))) \<rparr>] \<rparr>"

section \<open>Verified properties\<close>

subsection \<open>The card lookup\<close>

lemma store_keeps_proto:
  "\<forall>c \<in> set cards. card_id c \<noteq> ''__proto__'' \<Longrightarrow>
   proto_card (foldl store_card d cards) = proto_card d"
  by (induction cards arbitrary: d) (simp_all add: store_card_def)

lemma store_own_None:
  "\<forall>c \<in> set cards. card_id c \<noteq> ''__proto__'' \<Longrightarrow>
   own_cards (foldl store_card d cards) i = None
     \<longleftrightarrow> own_cards d i = None \<and> i \<notin> card_id ` set cards"
  by (induction cards arbitrary: d) (auto simp: store_card_def)

lemma store_own_Some:
  "own_cards (foldl store_card d cards) i = Some c \<Longrightarrow>
   own_cards d i = Some c \<or> (c \<in> set cards \<and> card_id c = i)"
proof (induction cards arbitrary: d)
  case Nil
  then show ?case by simp
next
  case (Cons x cards)
  from Cons.prems have "own_cards (foldl store_card (store_card d x) cards) i = Some c"
    by simp
  from Cons.IH [OF this] show ?case
    by (auto simp: store_card_def split: if_splits)
qed

lemma example_getCard:
  "getCard example_catalog ''copper'' = ACard copper"
  "getCard example_catalog ''village'' = ACard village"
  "getCard example_catalog ''market'' = ACard market"
  "getCard example_catalog ''silver'' = ACard silver"
  by (simp_all add: getCard_def example_catalog_def load_cards_def example_cards_def
      store_card_def no_cards_def copper_def village_def market_def silver_def)

text \<open>
  C10. The claim: the lookup returns a card for every id, and for an id that the
  catalog does not hold it returns the placeholder card of that id. The code breaks
  it for the ids that name a member of \<^verbatim>\<open>Object.prototype\<close>. \<open>cardDefs\<close> is an object
  literal read as a dictionary: at the id \<^verbatim>\<open>toString\<close>, which no catalog entry carries,
  \<^verbatim>\<open>cardDefs[id]\<close> is the function inherited from \<^verbatim>\<open>Object.prototype\<close>, which is neither
  \<^verbatim>\<open>null\<close> nor \<^verbatim>\<open>undefined\<close>, so \<^verbatim>\<open>??\<close> keeps it and the placeholder is not built. The
  caller gets a value that is no card: it has no \<^verbatim>\<open>type\<close>, where the placeholder has
  type action. This happens before the catalog is loaded and with the example catalog
  loaded.
\<close>

theorem getCard_inherited_id_is_no_card:
  "own_cards (load_cards []) ''toString'' = None
   \<and> getCard (load_cards []) ''toString'' = ProtoMember ''toString''
   \<and> getCard (load_cards []) ''toString'' \<noteq> ACard (placeholder ''toString'')
   \<and> cv_type (getCard (load_cards []) ''toString'') = None
   \<and> cv_type (ACard (placeholder ''toString'')) = Some Action
   \<and> own_cards example_catalog ''toString'' = None
   \<and> getCard example_catalog ''toString'' = ProtoMember ''toString''"
  by (simp add: getCard_def load_cards_def no_cards_def inherited_or_placeholder_def
      object_prototype_keys_def placeholder_def example_catalog_def example_cards_def
      store_card_def copper_def village_def market_def silver_def)

text \<open>
  A catalog card whose id is \<^verbatim>\<open>__proto__\<close> is not stored under its id: it becomes the
  prototype of \<open>cardDefs\<close>, and its fields then answer the lookup of their names.
\<close>

lemma getCard_proto_card_example:
  "getCard (load_cards [copper \<lparr> card_id := ''__proto__'' \<rparr>]) ''name''
     = CardField (copper \<lparr> card_id := ''__proto__'' \<rparr>) ''name''"
  by (simp add: getCard_def load_cards_def no_cards_def store_card_def card_fields_def)

text \<open>
  Every other id is treated as the claim says. For every catalog that holds no card
  of the id \<^verbatim>\<open>__proto__\<close>, loaded or not yet loaded, and for every id that is not a
  property name of \<^verbatim>\<open>Object.prototype\<close>, the lookup returns a card: a card of the catalog
  with that id when the catalog has one, else the placeholder card, whose id and name
  are the requested id, with type action, cost 0 and no effects.
\<close>

lemma getCard_outside_prototype:
  assumes "i \<notin> set object_prototype_keys"
    and "\<forall>c \<in> set cards. card_id c \<noteq> ''__proto__''"
  shows "(\<exists>c. getCard (load_cards cards) i = ACard c)
    \<and> (i \<in> card_id ` set cards \<longrightarrow>
         (\<exists>c \<in> set cards. card_id c = i \<and> getCard (load_cards cards) i = ACard c))
    \<and> (i \<notin> card_id ` set cards \<longrightarrow>
         getCard (load_cards cards) i = ACard (placeholder i)
         \<and> card_id (placeholder i) = i \<and> card_name (placeholder i) = i
         \<and> card_type (placeholder i) = Action \<and> cost (placeholder i) = 0
         \<and> effects (placeholder i) = [])"
proof -
  have proto: "proto_card (load_cards cards) = None"
    unfolding load_cards_def using store_keeps_proto [OF assms(2), of no_cards]
    by (simp add: no_cards_def)
  show ?thesis
  proof (cases "own_cards (load_cards cards) i")
    case None
    then have absent: "i \<notin> card_id ` set cards"
      unfolding load_cards_def using store_own_None [OF assms(2), of no_cards i] by simp
    from None proto assms(1) have "getCard (load_cards cards) i = ACard (placeholder i)"
      by (simp add: getCard_def inherited_or_placeholder_def)
    with absent show ?thesis by (simp add: placeholder_def)
  next
    case (Some c)
    then have "own_cards no_cards i = Some c \<or> (c \<in> set cards \<and> card_id c = i)"
      unfolding load_cards_def by (rule store_own_Some)
    then have c: "c \<in> set cards" "card_id c = i"
      by (simp_all add: no_cards_def)
    from Some have "getCard (load_cards cards) i = ACard c"
      by (simp add: getCard_def)
    with c show ?thesis by auto
  qed
qed

lemma getCard_outside_prototype_example:
  "''dragon'' \<notin> set object_prototype_keys
   \<and> ''village'' \<notin> set object_prototype_keys
   \<and> card_id copper \<noteq> ''__proto__'' \<and> card_id village \<noteq> ''__proto__''
   \<and> getCard (load_cards [copper, village]) ''dragon'' = ACard (placeholder ''dragon'')
   \<and> card_id (placeholder ''dragon'') = ''dragon''
   \<and> cost (placeholder ''dragon'') = 0
   \<and> effects (placeholder ''dragon'') = []
   \<and> getCard (load_cards [copper, village]) ''village'' = ACard village"
proof -
  have k: "''dragon'' \<notin> set object_prototype_keys"
      "''village'' \<notin> set object_prototype_keys"
    by (simp_all add: object_prototype_keys_def)
  have ids: "card_id copper = ''copper''" "card_id village = ''village''"
    by (simp_all add: copper_def village_def)
  then have p: "\<forall>c \<in> set [copper, village]. card_id c \<noteq> ''__proto__''"
    by simp
  have "getCard (load_cards [copper, village]) ''dragon'' = ACard (placeholder ''dragon'')
     \<and> card_id (placeholder ''dragon'') = ''dragon''
     \<and> cost (placeholder ''dragon'') = 0
     \<and> effects (placeholder ''dragon'') = []"
    using getCard_outside_prototype [OF k(1) p] ids by simp
  moreover have "getCard (load_cards [copper, village]) ''village'' = ACard village"
    using getCard_outside_prototype [OF k(2) p] ids by auto
  ultimately show ?thesis using k ids by simp
qed

subsection \<open>Effect lines\<close>

text \<open>The line of one effect whose tag is no property name of \<^verbatim>\<open>Object.prototype\<close>.\<close>

lemma effect_line_outside_prototype:
  "ef_type ef \<notin> set object_prototype_keys \<Longrightarrow>
   effect_line ef =
     Inr (map_option (\<lambda>fn. JString (fn (case amount ef of None \<Rightarrow> 0 | Some a \<Rightarrow> a)))
            (effectLabels (ef_type ef)))"
  by (cases "effectLabels (ef_type ef)") (simp_all add: effect_line_def js_get_def)

lemma map_effects_outside_prototype:
  "\<forall>ef \<in> set efs. ef_type ef \<notin> set object_prototype_keys \<Longrightarrow>
   map_effects efs =
     Inr (map (\<lambda>ef. map_option (\<lambda>fn. JString (fn (case amount ef of None \<Rightarrow> 0 | Some a \<Rightarrow> a)))
                 (effectLabels (ef_type ef))) efs)"
  by (induction efs) (simp_all add: effect_line_outside_prototype)

lemma map_filter_registered:
  "List.map_filter (\<lambda>l. l)
     (map (\<lambda>ef. map_option (\<lambda>fn. JString (fn (case amount ef of None \<Rightarrow> 0 | Some a \<Rightarrow> a)))
             (effectLabels (ef_type ef))) efs)
   = map (\<lambda>ef. JString (the (effectLabels (ef_type ef))
                    (case amount ef of None \<Rightarrow> 0 | Some a \<Rightarrow> a)))
       (filter (\<lambda>ef. effectLabels (ef_type ef) \<noteq> None) efs)"
  by (induction efs) (auto simp: List.map_filter_simps)

text \<open>
  C9. The claim: every tag without a registered handler is skipped, with no error and
  no output, and the registered tags are handled as usual. The code breaks it for the
  tags that name a member of \<^verbatim>\<open>Object.prototype\<close>. The tag \<^verbatim>\<open>__proto__\<close> has no handler,
  yet \<^verbatim>\<open>effectLabels['__proto__']\<close> is the object \<^verbatim>\<open>Object.prototype\<close>, which is truthy
  and is called: the whole call throws a TypeError, for a card whose other effect is
  registered and gives its line when it stands alone. The tag \<^verbatim>\<open>toString\<close> is not
  skipped either: the inherited function is called and its result is kept as a line.
\<close>

theorem buildEffectLines_inherited_tag_not_skipped:
  "effectLabels ''__proto__'' = None
   \<and> buildEffectLines (ACard ((placeholder ''x'')
        \<lparr> effects := [\<lparr> ef_type = ''draw'', amount = Some 1 \<rparr>] \<rparr>))
     = Inr [JString (''+1 '' @ [CHR 0xE3, CHR 0x82, CHR 0xAB, CHR 0xE3, CHR 0x83, CHR 0xBC,
                               CHR 0xE3, CHR 0x83, CHR 0x89, CHR 0xE3, CHR 0x82, CHR 0x92,
                               CHR 0xE5, CHR 0xBC, CHR 0x95, CHR 0xE3, CHR 0x81, CHR 0x8F])]
   \<and> buildEffectLines (ACard ((placeholder ''x'')
        \<lparr> effects := [\<lparr> ef_type = ''draw'', amount = Some 1 \<rparr>,
                      \<lparr> ef_type = ''__proto__'', amount = None \<rparr>] \<rparr>))
     = Inl TypeError
   \<and> effectLabels ''toString'' = None
   \<and> buildEffectLines (ACard ((placeholder ''x'')
        \<lparr> effects := [\<lparr> ef_type = ''toString'', amount = None \<rparr>] \<rparr>))
     = Inr [JString ''[object Undefined]'']"
  by (simp add: buildEffectLines_def effects_to_show_def placeholder_def effect_line_def
      js_get_def object_prototype_keys_def call_prototype_member_def
      effectLabels_def effectLabels_entries_def List.map_filter_simps show_int_def)

text \<open>
  Every other tag is treated as the claim says. For a card whose effect tags are no
  property names of \<^verbatim>\<open>Object.prototype\<close>, building the lines raises no error, the tags
  without a registered handler give no line, and every registered tag gives its label
  at the effect's amount (0 when the effect has none), in the order of the effect
  list; the line of the reaction follows them.
\<close>

lemma buildEffectLines_skips_unknown:
  assumes "\<forall>ef \<in> set (effects_to_show c). ef_type ef \<notin> set object_prototype_keys"
  shows "buildEffectLines c =
     Inr (map (\<lambda>ef. JString (the (effectLabels (ef_type ef))
                         (case amount ef of None \<Rightarrow> 0 | Some a \<Rightarrow> a)))
            (filter (\<lambda>ef. effectLabels (ef_type ef) \<noteq> None) (effects_to_show c))
          @ (if cv_reaction c = Some ''block_attack''
             then [JString block_attack_line] else []))"
  unfolding buildEffectLines_def
  by (simp add: map_effects_outside_prototype [OF assms] map_filter_registered)

lemma buildEffectLines_skips_unknown_example:
  "''buy'' \<notin> set object_prototype_keys
   \<and> ''summon_dragon'' \<notin> set object_prototype_keys
   \<and> ''coin'' \<notin> set object_prototype_keys
   \<and> effectLabels ''summon_dragon'' = None
   \<and> buildEffectLines (ACard ((placeholder ''x'')
        \<lparr> effects := [\<lparr> ef_type = ''buy'', amount = Some 2 \<rparr>,
                      \<lparr> ef_type = ''summon_dragon'', amount = Some 3 \<rparr>,
                      \<lparr> ef_type = ''coin'', amount = None \<rparr>] \<rparr>))
     = Inr [JString (''+2 '' @ [CHR 0xE8, CHR 0xB3, CHR 0xBC, CHR 0xE5, CHR 0x85, CHR 0xA5]),
            JString (''+0 '' @ [CHR 0xE3, CHR 0x82, CHR 0xB3, CHR 0xE3, CHR 0x82, CHR 0xA4,
                               CHR 0xE3, CHR 0x83, CHR 0xB3])]"
proof -
  let ?c = "ACard ((placeholder ''x'')
        \<lparr> effects := [\<lparr> ef_type = ''buy'', amount = Some 2 \<rparr>,
                      \<lparr> ef_type = ''summon_dragon'', amount = Some 3 \<rparr>,
                      \<lparr> ef_type = ''coin'', amount = None \<rparr>] \<rparr>)"
  have h: "\<forall>ef \<in> set (effects_to_show ?c). ef_type ef \<notin> set object_prototype_keys"
    by (simp add: effects_to_show_def object_prototype_keys_def)
  have "buildEffectLines ?c =
     Inr [JString (''+2 '' @ [CHR 0xE8, CHR 0xB3, CHR 0xBC, CHR 0xE5, CHR 0x85, CHR 0xA5]),
            JString (''+0 '' @ [CHR 0xE3, CHR 0x82, CHR 0xB3, CHR 0xE3, CHR 0x82, CHR 0xA4,
                               CHR 0xE3, CHR 0x83, CHR 0xB3])]"
    using buildEffectLines_skips_unknown [OF h]
    by (simp add: effects_to_show_def placeholder_def effectLabels_def
        effectLabels_entries_def show_int_def)
  then show ?thesis
    by (simp add: object_prototype_keys_def effectLabels_def effectLabels_entries_def)
qed

subsection \<open>The clicks of the hand and of the supply\<close>

lemma find_me_Some:
  "find_me gs playerId = Some p \<Longrightarrow> playerId = Some (ps_id p) \<and> p \<in> set (players gs)"
  by (auto simp: find_me_def find_Some_iff)

lemma Hand_handleClick_send:
  "Hand_handleClick gs playerId me get_card dm cid idx = Some (Send a) \<Longrightarrow>
   \<not> dm \<and> current_player gs = playerId
   \<and> ((a = PlayAction cid \<and> cv_type (get_card cid) = Some Action \<and> phase gs = ''action''
        \<and> num_or0 (map_option actions me) > 0)
      \<or> (a = PlayTreasure cid \<and> cv_type (get_card cid) = Some Treasure
        \<and> (phase gs = ''action'' \<or> phase gs = ''buy'')))"
  by (auto simp: Hand_handleClick_def Let_def split: if_splits)

lemma board_hand_click_send:
  "board_hand_click gs playerId cardDefs idx = Some (Send a) \<Longrightarrow>
   idx < length (hand_of (find_me gs playerId))
   \<and> \<not> discardMode gs playerId \<and> current_player gs = playerId
   \<and> ((a = PlayAction (hand_of (find_me gs playerId) ! idx)
        \<and> cv_type (getCard cardDefs (hand_of (find_me gs playerId) ! idx)) = Some Action
        \<and> phase gs = ''action''
        \<and> num_or0 (map_option actions (find_me gs playerId)) > 0)
      \<or> (a = PlayTreasure (hand_of (find_me gs playerId) ! idx)
        \<and> cv_type (getCard cardDefs (hand_of (find_me gs playerId) ! idx)) = Some Treasure
        \<and> (phase gs = ''action'' \<or> phase gs = ''buy'')))"
  unfolding board_hand_click_def Let_def
  by (auto split: if_splits dest!: Hand_handleClick_send)

lemma Supply_click_gain_iff:
  "Supply_click gs playerId me get_card cid count = Some (GainSelection x)
   \<longleftrightarrow> x = cid \<and> canGain gs playerId (get_card cid) count"
  by (auto simp: Supply_click_def Let_def)

lemma Supply_click_buy_iff:
  "Supply_click gs playerId me get_card cid count = Some (Buy x)
   \<longleftrightarrow> x = cid \<and> canBuy gs playerId me (get_card cid) count
       \<and> \<not> canGain gs playerId (get_card cid) count"
  by (auto simp: Supply_click_def Let_def)

lemma Supply_click_cases:
  "Supply_click gs playerId me get_card cid count = Some a \<Longrightarrow>
   a = GainSelection cid \<or> a = Buy cid"
  by (auto simp: Supply_click_def Let_def split: if_splits)

lemma canGain_needs_pending: "pending_action gs = None \<Longrightarrow> \<not> canGain gs playerId c count"
  by (simp add: canGain_def isGainMode_def gainType_def)

lemma canBuy_needs_buy_phase: "phase gs \<noteq> ''buy'' \<Longrightarrow> \<not> canBuy gs playerId me c count"
  by (simp add: canBuy_def)

lemma offered_moves_cases:
  assumes "a \<in> set (offered_moves gs playerId cardDefs)"
  shows "(\<exists>idx. board_hand_click gs playerId cardDefs idx = Some (Send a))
       \<or> a \<in> set (ActionsBar gs playerId)
       \<or> (\<exists>cid count. (cid, count) \<in> set (supply_piles gs)
             \<and> board_supply_click gs playerId cardDefs cid count = Some a)"
proof -
  from assms consider
      (hand) "a \<in> set (List.map_filter
         (\<lambda>idx. case board_hand_click gs playerId cardDefs idx of
                   Some (Send a) \<Rightarrow> Some a | _ \<Rightarrow> None)
         [0 ..< length (hand_of (find_me gs playerId))])"
    | (bar) "a \<in> set (ActionsBar gs playerId)"
    | (pile) "a \<in> set (List.map_filter
         (\<lambda>(cid, count). board_supply_click gs playerId cardDefs cid count)
         (supply_piles gs))"
    by (auto simp: offered_moves_def)
  then show ?thesis
  proof cases
    case hand
    then obtain idx where
      "(case board_hand_click gs playerId cardDefs idx of
          Some (Send a) \<Rightarrow> Some a | _ \<Rightarrow> None) = Some a"
      by (auto simp: List.map_filter_def)
    then have "board_hand_click gs playerId cardDefs idx = Some (Send a)"
      by (auto split: option.splits ui_event.splits)
    then show ?thesis by blast
  next
    case bar
    then show ?thesis by simp
  next
    case pile
    then show ?thesis by (auto simp: List.map_filter_def)
  qed
qed

lemma ActionsBar_member:
  "a \<in> set (ActionsBar gs playerId) \<Longrightarrow>
   current_player gs = playerId
   \<and> ((a = SkipAction \<and> phase gs = ''action'')
      \<or> ((a = PlayAllTreasures \<or> a = EndTurn) \<and> (phase gs = ''action'' \<or> phase gs = ''buy'')))"
  by (auto simp: ActionsBar_def split: if_splits)

text \<open>
  C2, as claimed, fails: no play of a treasure is claimed to be offered in the action
  phase. In the action phase of the first player's turn, a click on the treasure in
  that player's hand sends \<^verbatim>\<open>play_treasure\<close>, and the actions bar shows the button
  that sends \<^verbatim>\<open>play_all_treasures\<close>: both handlers test
  \<^verbatim>\<open>phase === 'action' || phase === 'buy'\<close>.
\<close>

theorem treasure_offered_in_action_phase_counterexample:
  "phase action_state = ''action''
   \<and> current_player action_state = Some ''p1''
   \<and> board_hand_click action_state (Some ''p1'') example_catalog 0
       = Some (Send (PlayTreasure ''copper''))
   \<and> PlayTreasure ''copper'' \<in> set (offered_moves action_state (Some ''p1'') example_catalog)
   \<and> PlayAllTreasures \<in> set (ActionsBar action_state (Some ''p1''))"
  by (simp add: offered_moves_def List.map_filter_simps ActionsBar_def
      board_hand_click_def find_me_def hand_of_def
      action_state_def first_player_def second_player_def Hand_handleClick_def
      discardMode_def isMyPa_def example_getCard copper_def
      village_def upt_rec [of 0] upt_rec [of 1] upt_rec [of 2])

text \<open>
  C2, amended: playing a treasure card, one card or all at once, is offered to the
  active player only, and only in the action phase or the buy phase. In the action
  phase with no pending action, the moves offered are: playing an action card of the
  hand (with an action left), playing a treasure card of the hand, playing all
  treasures, skipping to the buy phase, and ending the turn; all of them to the
  active player only.
\<close>

theorem treasure_play_offered_in_action_or_buy:
  assumes "a \<in> set (offered_moves gs playerId cardDefs)"
  shows "((\<exists>cid. a = PlayTreasure cid) \<or> a = PlayAllTreasures \<longrightarrow>
            current_player gs = playerId \<and> (phase gs = ''action'' \<or> phase gs = ''buy''))
       \<and> (phase gs = ''action'' \<and> pending_action gs = None \<longrightarrow>
            current_player gs = playerId
            \<and> ((\<exists>cid. a = PlayAction cid \<and> cid \<in> set (hand_of (find_me gs playerId))
                     \<and> cv_type (getCard cardDefs cid) = Some Action
                     \<and> num_or0 (map_option actions (find_me gs playerId)) > 0)
               \<or> (\<exists>cid. a = PlayTreasure cid \<and> cid \<in> set (hand_of (find_me gs playerId))
                     \<and> cv_type (getCard cardDefs cid) = Some Treasure)
               \<or> a = PlayAllTreasures \<or> a = SkipAction \<or> a = EndTurn))"
proof -
  from offered_moves_cases [OF assms] consider
      (hand) idx where "board_hand_click gs playerId cardDefs idx = Some (Send a)"
    | (bar) "a \<in> set (ActionsBar gs playerId)"
    | (pile) cid count where "board_supply_click gs playerId cardDefs cid count = Some a"
    by blast
  then show ?thesis
  proof cases
    case hand
    from board_hand_click_send [OF hand] show ?thesis
      by (auto simp: nth_mem)
  next
    case bar
    from ActionsBar_member [OF bar] show ?thesis by auto
  next
    case pile
    then have a: "a = GainSelection cid \<or> a = Buy cid"
      unfolding board_supply_click_def by (rule Supply_click_cases)
    have "\<not> (phase gs = ''action'' \<and> pending_action gs = None)"
    proof
      assume h: "phase gs = ''action'' \<and> pending_action gs = None"
      then have "\<not> canGain gs playerId (getCard cardDefs cid) count"
        by (simp add: canGain_needs_pending)
      moreover from h have
        "\<not> canBuy gs playerId (find_me gs playerId) (getCard cardDefs cid) count"
        by (simp add: canBuy_needs_buy_phase)
      ultimately show False
        using pile by (simp add: board_supply_click_def Supply_click_def Let_def)
    qed
    with a show ?thesis by auto
  qed
qed

theorem treasure_play_offered_in_action_or_buy_witness:
  "PlayTreasure ''copper'' \<in> set (offered_moves buy_state (Some ''p1'') example_catalog)
   \<and> current_player buy_state = Some ''p1''
   \<and> phase buy_state = ''buy''"
proof -
  have m: "PlayTreasure ''copper'' \<in> set (offered_moves buy_state (Some ''p1'') example_catalog)"
    by (simp add: offered_moves_def List.map_filter_simps ActionsBar_def
      board_hand_click_def find_me_def hand_of_def buy_state_def
      action_state_def first_player_def second_player_def Hand_handleClick_def
      discardMode_def isMyPa_def example_getCard copper_def
      village_def upt_rec [of 0] upt_rec [of 1] upt_rec [of 2])
  have "phase buy_state = ''buy''"
    by (simp add: buy_state_def)
  with m treasure_play_offered_in_action_or_buy [OF m] show ?thesis
    by simp
qed

lemma undef_eq_null_iff:
  "undef_eq_null a b \<longleftrightarrow> (\<exists>r. a = Some r \<and> b = Some r)"
  by (auto simp: undef_eq_null_def split: option.splits)

lemma canGain_iff:
  "canGain gs playerId c count \<longleftrightarrow>
   (\<exists>pa. pending_action gs = Some pa
      \<and> (pa_type pa = ''gain'' \<or> pa_type pa = ''gain_to_hand''
           \<or> pa_type pa = ''gain_treasure_to_hand'')
      \<and> (\<exists>r. player_id pa = Some r \<and> playerId = Some r)
      \<and> count > 0
      \<and> cv_cost_or0 c \<le> (case max_cost pa of None \<Rightarrow> 0 | Some m \<Rightarrow> m)
      \<and> (pa_type pa = ''gain_treasure_to_hand'' \<longrightarrow> cv_type c = Some Treasure))"
  by (cases "pending_action gs")
     (auto simp: canGain_def isGainMode_def gainType_def maxCost_def undef_eq_null_iff)

lemma canBuy_player:
  assumes "canBuy gs playerId (find_me gs playerId) c count"
  shows "\<exists>me. find_me gs playerId = Some me \<and> playerId = Some (ps_id me)
           \<and> current_player gs = Some (ps_id me) \<and> phase gs = ''buy''
           \<and> coins me \<ge> cv_cost_or0 c \<and> buys me > 0 \<and> count > 0"
proof (cases "find_me gs playerId")
  case None
  with assms show ?thesis by (simp add: canBuy_def num_or0_def)
next
  case (Some me)
  then have "playerId = Some (ps_id me)" by (simp add: find_me_Some)
  with assms Some show ?thesis
    by (simp add: canBuy_def num_or0_def split: if_splits)
qed

text \<open>
  The effect lines of the four cards of the example catalog are built without an
  exception.
\<close>

lemma example_effect_lines_built:
  "\<not> isl (buildEffectLines (getCard example_catalog ''copper''))"
  "\<not> isl (buildEffectLines (getCard example_catalog ''silver''))"
  "\<not> isl (buildEffectLines (getCard example_catalog ''village''))"
  "\<not> isl (buildEffectLines (getCard example_catalog ''market''))"
  by (simp_all add: example_getCard buildEffectLines_def effects_to_show_def effect_line_def
      js_get_def object_prototype_keys_def copper_def silver_def village_def market_def
      effectLabels_def effectLabels_entries_def List.map_filter_simps)

text \<open>
  C3, as claimed, fails: with a gain variant pending, a pile is claimed to be
  selectable only when the card's cost is at most \<open>max_cost\<close> (and, for
  \<^verbatim>\<open>gain_treasure_to_hand\<close>, the card is a treasure). The pile is selectable when
  \<^verbatim>\<open>canBuy || canGain\<close>. In the buy phase of the first player's turn, with 5 coins and
  1 buy, and with a \<^verbatim>\<open>gain_treasure_to_hand\<close> of cost at most 3 pending for that player,
  the pile of the action card of cost 5 is selectable, and the click on it sends a
  buy. The effect lines of every pile and of every card of the hand are built without
  an exception in that state.
\<close>

theorem pile_above_max_cost_selectable_counterexample:
  "pending_action buy_gain_state = Some gain_pending
   \<and> pa_type gain_pending = ''gain_treasure_to_hand''
   \<and> player_id gain_pending = Some ''p1''
   \<and> max_cost gain_pending = Some 3
   \<and> phase buy_gain_state = ''buy''
   \<and> supply_piles buy_gain_state
        = [(''copper'', 46), (''silver'', 40), (''village'', 10), (''market'', 8)]
   \<and> cv_cost_or0 (getCard example_catalog ''market'') = 5
   \<and> cv_type (getCard example_catalog ''market'') = Some Action
   \<and> board_supply_clickable buy_gain_state (Some ''p1'') example_catalog ''market'' 8
   \<and> board_supply_click buy_gain_state (Some ''p1'') example_catalog ''market'' 8
        = Some (Buy ''market'')
   \<and> list_all (\<lambda>(cid, count). \<not> isl (buildEffectLines (getCard example_catalog cid)))
        (supply_piles buy_gain_state)
   \<and> list_all (\<lambda>cid. \<not> isl (buildEffectLines (getCard example_catalog cid)))
        (hand_of (find_me buy_gain_state (Some ''p1'')))"
proof -
  have state: "pending_action buy_gain_state = Some gain_pending
      \<and> pa_type gain_pending = ''gain_treasure_to_hand''
      \<and> player_id gain_pending = Some ''p1''
      \<and> max_cost gain_pending = Some 3
      \<and> phase buy_gain_state = ''buy''
      \<and> supply_piles buy_gain_state
           = [(''copper'', 46), (''silver'', 40), (''village'', 10), (''market'', 8)]"
    by (simp add: buy_gain_state_def buy_state_def action_state_def gain_pending_def)
  have market: "cv_cost_or0 (getCard example_catalog ''market'') = 5
      \<and> cv_type (getCard example_catalog ''market'') = Some Action"
    by (simp add: example_getCard market_def num_or0_def)
  have click: "board_supply_clickable buy_gain_state (Some ''p1'') example_catalog ''market'' 8
      \<and> board_supply_click buy_gain_state (Some ''p1'') example_catalog ''market'' 8
           = Some (Buy ''market'')"
    by (simp add: board_supply_clickable_def Supply_clickable_def
        board_supply_click_def Supply_click_def canBuy_def canGain_def isGainMode_def
        gainType_def maxCost_def undef_eq_null_def num_or0_def find_me_def
        buy_gain_state_def buy_state_def action_state_def gain_pending_def
        first_player_def second_player_def example_getCard market_def)
  have piles: "list_all (\<lambda>(cid, count). \<not> isl (buildEffectLines (getCard example_catalog cid)))
        (supply_piles buy_gain_state)"
    by (simp add: example_effect_lines_built buy_gain_state_def buy_state_def
        action_state_def)
  have hand: "list_all (\<lambda>cid. \<not> isl (buildEffectLines (getCard example_catalog cid)))
        (hand_of (find_me buy_gain_state (Some ''p1'')))"
    by (simp add: example_effect_lines_built buy_gain_state_def buy_state_def
        action_state_def find_me_def hand_of_def first_player_def)
  from state market click piles hand show ?thesis
    by (intro conjI) (erule conjunct1 | erule conjunct2 | assumption | simp)+
qed

text \<open>
  C3, amended: a click on a supply pile sends the gain selection of that pile only
  when a gain variant is pending (\<^verbatim>\<open>gain\<close>, \<^verbatim>\<open>gain_to_hand\<close> or
  \<^verbatim>\<open>gain_treasure_to_hand\<close>), this client's player is the pending action's player, the
  pile has cards left, the card costs at most \<open>max_cost\<close> (0 when the pending action
  carries none), and, for \<^verbatim>\<open>gain_treasure_to_hand\<close> only, the card is a treasure. A
  click sends a buy of that pile only when these conditions fail and the conditions
  of a buy hold: it is this player's turn, in the buy phase, with a buy left, coins
  for the cost, and cards left in the pile. A pile is selectable only when the
  conditions of the gain or the conditions of a buy hold.
\<close>

theorem supply_pile_selectable_only_if:
  "(board_supply_click gs playerId cardDefs cid count = Some (GainSelection x) \<longrightarrow>
      x = cid
      \<and> (\<exists>pa. pending_action gs = Some pa
           \<and> (pa_type pa = ''gain'' \<or> pa_type pa = ''gain_to_hand''
                \<or> pa_type pa = ''gain_treasure_to_hand'')
           \<and> (\<exists>r. player_id pa = Some r \<and> playerId = Some r)
           \<and> count > 0
           \<and> cv_cost_or0 (getCard cardDefs cid)
                \<le> (case max_cost pa of None \<Rightarrow> 0 | Some m \<Rightarrow> m)
           \<and> (pa_type pa = ''gain_treasure_to_hand''
                \<longrightarrow> cv_type (getCard cardDefs cid) = Some Treasure)))
   \<and> (board_supply_click gs playerId cardDefs cid count = Some (Buy x) \<longrightarrow>
        x = cid
        \<and> (\<exists>me. find_me gs playerId = Some me \<and> playerId = Some (ps_id me)
             \<and> current_player gs = Some (ps_id me) \<and> phase gs = ''buy''
             \<and> coins me \<ge> cv_cost_or0 (getCard cardDefs cid) \<and> buys me > 0 \<and> count > 0)
        \<and> \<not> (\<exists>pa. pending_action gs = Some pa
                \<and> (pa_type pa = ''gain'' \<or> pa_type pa = ''gain_to_hand''
                     \<or> pa_type pa = ''gain_treasure_to_hand'')
                \<and> (\<exists>r. player_id pa = Some r \<and> playerId = Some r)
                \<and> cv_cost_or0 (getCard cardDefs cid)
                     \<le> (case max_cost pa of None \<Rightarrow> 0 | Some m \<Rightarrow> m)
                \<and> (pa_type pa = ''gain_treasure_to_hand''
                     \<longrightarrow> cv_type (getCard cardDefs cid) = Some Treasure)))
   \<and> (board_supply_clickable gs playerId cardDefs cid count \<longrightarrow>
        (\<exists>pa. pending_action gs = Some pa
           \<and> (pa_type pa = ''gain'' \<or> pa_type pa = ''gain_to_hand''
                \<or> pa_type pa = ''gain_treasure_to_hand'')
           \<and> (\<exists>r. player_id pa = Some r \<and> playerId = Some r)
           \<and> count > 0
           \<and> cv_cost_or0 (getCard cardDefs cid)
                \<le> (case max_cost pa of None \<Rightarrow> 0 | Some m \<Rightarrow> m)
           \<and> (pa_type pa = ''gain_treasure_to_hand''
                \<longrightarrow> cv_type (getCard cardDefs cid) = Some Treasure))
        \<or> (\<exists>me. find_me gs playerId = Some me \<and> playerId = Some (ps_id me)
             \<and> current_player gs = Some (ps_id me) \<and> phase gs = ''buy''
             \<and> coins me \<ge> cv_cost_or0 (getCard cardDefs cid) \<and> buys me > 0 \<and> count > 0))"
proof (intro conjI impI)
  assume "board_supply_click gs playerId cardDefs cid count = Some (GainSelection x)"
  then have g: "x = cid \<and> canGain gs playerId (getCard cardDefs cid) count"
    unfolding board_supply_click_def by (rule Supply_click_gain_iff [THEN iffD1])
  then show "x = cid" by simp
  from g show "\<exists>pa. pending_action gs = Some pa
           \<and> (pa_type pa = ''gain'' \<or> pa_type pa = ''gain_to_hand''
                \<or> pa_type pa = ''gain_treasure_to_hand'')
           \<and> (\<exists>r. player_id pa = Some r \<and> playerId = Some r)
           \<and> count > 0
           \<and> cv_cost_or0 (getCard cardDefs cid)
                \<le> (case max_cost pa of None \<Rightarrow> 0 | Some m \<Rightarrow> m)
           \<and> (pa_type pa = ''gain_treasure_to_hand''
                \<longrightarrow> cv_type (getCard cardDefs cid) = Some Treasure)"
    by (simp only: canGain_iff)
next
  assume "board_supply_click gs playerId cardDefs cid count = Some (Buy x)"
  then have b: "x = cid
      \<and> canBuy gs playerId (find_me gs playerId) (getCard cardDefs cid) count
      \<and> \<not> canGain gs playerId (getCard cardDefs cid) count"
    unfolding board_supply_click_def by (rule Supply_click_buy_iff [THEN iffD1])
  then show "x = cid" by simp
  from b have cb: "canBuy gs playerId (find_me gs playerId) (getCard cardDefs cid) count"
    by simp
  from canBuy_player [OF cb]
  show buy: "\<exists>me. find_me gs playerId = Some me \<and> playerId = Some (ps_id me)
             \<and> current_player gs = Some (ps_id me) \<and> phase gs = ''buy''
             \<and> coins me \<ge> cv_cost_or0 (getCard cardDefs cid) \<and> buys me > 0 \<and> count > 0" .
  then have "count > 0" by blast
  moreover from b have "\<not> canGain gs playerId (getCard cardDefs cid) count" by simp
  ultimately show "\<not> (\<exists>pa. pending_action gs = Some pa
                \<and> (pa_type pa = ''gain'' \<or> pa_type pa = ''gain_to_hand''
                     \<or> pa_type pa = ''gain_treasure_to_hand'')
                \<and> (\<exists>r. player_id pa = Some r \<and> playerId = Some r)
                \<and> cv_cost_or0 (getCard cardDefs cid)
                     \<le> (case max_cost pa of None \<Rightarrow> 0 | Some m \<Rightarrow> m)
                \<and> (pa_type pa = ''gain_treasure_to_hand''
                     \<longrightarrow> cv_type (getCard cardDefs cid) = Some Treasure))"
    unfolding canGain_iff by blast
next
  assume "board_supply_clickable gs playerId cardDefs cid count"
  then consider
      (gain) "canGain gs playerId (getCard cardDefs cid) count"
    | (buy) "canBuy gs playerId (find_me gs playerId) (getCard cardDefs cid) count"
    unfolding board_supply_clickable_def Supply_clickable_def Let_def by blast
  then show "(\<exists>pa. pending_action gs = Some pa
           \<and> (pa_type pa = ''gain'' \<or> pa_type pa = ''gain_to_hand''
                \<or> pa_type pa = ''gain_treasure_to_hand'')
           \<and> (\<exists>r. player_id pa = Some r \<and> playerId = Some r)
           \<and> count > 0
           \<and> cv_cost_or0 (getCard cardDefs cid)
                \<le> (case max_cost pa of None \<Rightarrow> 0 | Some m \<Rightarrow> m)
           \<and> (pa_type pa = ''gain_treasure_to_hand''
                \<longrightarrow> cv_type (getCard cardDefs cid) = Some Treasure))
        \<or> (\<exists>me. find_me gs playerId = Some me \<and> playerId = Some (ps_id me)
             \<and> current_player gs = Some (ps_id me) \<and> phase gs = ''buy''
             \<and> coins me \<ge> cv_cost_or0 (getCard cardDefs cid) \<and> buys me > 0 \<and> count > 0)"
  proof cases
    case gain
    then show ?thesis by (simp only: canGain_iff simp_thms)
  next
    case buy
    from canBuy_player [OF buy] show ?thesis by (rule disjI2)
  qed
qed

theorem supply_pile_selectable_only_if_witness:
  "board_supply_click gain_state (Some ''p1'') example_catalog ''silver'' 40
     = Some (GainSelection ''silver'')
   \<and> pending_action gain_state = Some gain_pending
   \<and> pa_type gain_pending = ''gain_treasure_to_hand''
   \<and> player_id gain_pending = Some ''p1''
   \<and> max_cost gain_pending = Some 3
   \<and> cv_cost_or0 (getCard example_catalog ''silver'') \<le> 3
   \<and> cv_type (getCard example_catalog ''silver'') = Some Treasure
   \<and> board_supply_clickable buy_gain_state (Some ''p1'') example_catalog ''market'' 8
   \<and> board_supply_click buy_gain_state (Some ''p1'') example_catalog ''market'' 8
        = Some (Buy ''market'')
   \<and> find_me buy_gain_state (Some ''p1'') = Some first_player
   \<and> current_player buy_gain_state = Some ''p1''
   \<and> phase buy_gain_state = ''buy''
   \<and> coins first_player \<ge> cv_cost_or0 (getCard example_catalog ''market'')
   \<and> buys first_player > 0"
proof -
  have p: "pending_action gain_state = Some gain_pending
           \<and> pa_type gain_pending = ''gain_treasure_to_hand''
           \<and> player_id gain_pending = Some ''p1''
           \<and> max_cost gain_pending = Some 3"
    by (simp add: gain_state_def gain_pending_def action_state_def)
  have g: "board_supply_click gain_state (Some ''p1'') example_catalog ''silver'' 40
             = Some (GainSelection ''silver'')"
    by (simp add: board_supply_click_def Supply_click_def canBuy_def canGain_def
        isGainMode_def gainType_def maxCost_def undef_eq_null_def num_or0_def
        gain_state_def action_state_def gain_pending_def example_getCard silver_def)
  have b: "board_supply_click buy_gain_state (Some ''p1'') example_catalog ''market'' 8
             = Some (Buy ''market'')"
    by (simp add: board_supply_click_def Supply_click_def canBuy_def canGain_def
        isGainMode_def gainType_def maxCost_def undef_eq_null_def num_or0_def find_me_def
        buy_gain_state_def buy_state_def action_state_def gain_pending_def
        first_player_def second_player_def example_getCard market_def)
  have c: "board_supply_clickable buy_gain_state (Some ''p1'') example_catalog ''market'' 8"
    by (simp add: board_supply_clickable_def Supply_clickable_def canBuy_def canGain_def
        isGainMode_def gainType_def maxCost_def undef_eq_null_def num_or0_def find_me_def
        buy_gain_state_def buy_state_def action_state_def gain_pending_def
        first_player_def second_player_def example_getCard market_def)
  have f: "find_me buy_gain_state (Some ''p1'') = Some first_player"
    by (simp add: find_me_def buy_gain_state_def buy_state_def action_state_def
        first_player_def)
  note t1 = supply_pile_selectable_only_if
      [of gain_state "Some ''p1''" example_catalog "''silver''" 40 "''silver''",
       THEN conjunct1, rule_format, OF g]
  note t2 = supply_pile_selectable_only_if
      [of buy_gain_state "Some ''p1''" example_catalog "''market''" 8 "''market''",
       THEN conjunct2, THEN conjunct1, rule_format, OF b]
  from t1 p have s: "cv_cost_or0 (getCard example_catalog ''silver'') \<le> 3
      \<and> cv_type (getCard example_catalog ''silver'') = Some Treasure"
    by auto
  from t2 f have m: "current_player buy_gain_state = Some ''p1''
      \<and> phase buy_gain_state = ''buy''
      \<and> coins first_player \<ge> cv_cost_or0 (getCard example_catalog ''market'')
      \<and> buys first_player > 0"
    by (auto simp: first_player_def)
  from g p s c b f m show ?thesis by (intro conjI) simp_all
qed

subsection \<open>The sentry prompt\<close>

lemma handleAction_result:
  "SentryPrompt_handleAction cards d idx action =
     (if \<forall>i < length cards. (d(idx \<mapsto> action)) i \<noteq> None
      then (Map.empty,
            Some (SentryDecision
                    (map (\<lambda>(cid, i). (cid, the ((d(idx \<mapsto> action)) i)))
                       (zip cards [0 ..< length cards]))))
      else (d(idx \<mapsto> action), None))"
  unfolding SentryPrompt_handleAction_def Let_def list_all_iff
  by (simp only: set_upt atLeast0LessThan Ball_def lessThan_iff)

lemma handleAction_full:
  "\<forall>i < length cards. (d(idx \<mapsto> action)) i \<noteq> None \<Longrightarrow>
   SentryPrompt_handleAction cards d idx action =
     (Map.empty,
      Some (SentryDecision
              (map (\<lambda>(cid, i). (cid, the ((d(idx \<mapsto> action)) i)))
                 (zip cards [0 ..< length cards]))))"
  by (simp only: handleAction_result) (erule if_P)

lemma handleAction_partial:
  "\<not> (\<forall>i < length cards. (d(idx \<mapsto> action)) i \<noteq> None) \<Longrightarrow>
   SentryPrompt_handleAction cards d idx action = (d(idx \<mapsto> action), None)"
  by (simp only: handleAction_result if_False)

lemma map_fst_indexed:
  "map fst (map (\<lambda>(cid, i). (cid, f i)) (zip cards [0 ..< length cards])) = cards"
  by (simp add: comp_def case_prod_beta)

lemma nth_indexed:
  "i < length cards \<Longrightarrow>
   map (\<lambda>(cid, i). (cid, f i)) (zip cards [0 ..< length cards]) ! i = (cards ! i, f i)"
  by simp

lemma sentry_button_choice:
  "(idx, action) \<in> set (sentry_buttons cards) \<Longrightarrow>
   idx < length cards \<and> action \<in> set sentry_choices"
  by (auto simp: sentry_buttons_def)

lemma decisions_within_choices:
  assumes inv: "\<forall>i a. u i = Some a \<longrightarrow> a \<in> set sentry_choices"
    and full: "\<forall>i < length cards. u i \<noteq> None"
    and x: "x \<in> set (map (\<lambda>(cid, i). (cid, the (u i))) (zip cards [0 ..< length cards]))"
  shows "snd x \<in> set sentry_choices"
proof -
  from x obtain cid i where xi: "x = (cid, the (u i))"
    and "(cid, i) \<in> set (zip cards [0 ..< length cards])"
    by auto
  then have "i < length cards"
    by (auto dest: set_zip_rightD)
  with full obtain a where "u i = Some a" by auto
  with inv xi show ?thesis by auto
qed

lemma full_response_complete:
  assumes inv: "\<forall>i a. u i = Some a \<longrightarrow> a \<in> set sentry_choices"
    and full: "\<forall>i < length cards. u i \<noteq> None"
  shows "complete_response cards
           (SentryDecision (map (\<lambda>(cid, i). (cid, the (u i))) (zip cards [0 ..< length cards])))"
proof -
  let ?ds = "map (\<lambda>(cid, i). (cid, the (u i))) (zip cards [0 ..< length cards])"
  have "map fst ?ds = cards" by (rule map_fst_indexed)
  moreover have "list_all (\<lambda>x. snd x \<in> set sentry_choices) ?ds"
    unfolding list_all_iff using decisions_within_choices [OF inv full] by blast
  ultimately show ?thesis
    unfolding complete_response_def by (simp only: client_action.case simp_thms)
qed

lemma sentry_clicks_complete:
  assumes "\<forall>i a. d i = Some a \<longrightarrow> a \<in> set sentry_choices"
    and "set clicks \<subseteq> set (sentry_buttons cards)"
  shows "list_all (complete_response cards) (sentry_clicks cards d clicks)"
  using assms
proof (induction clicks arbitrary: d)
  case Nil
  then show ?case by simp
next
  case (Cons click clicks)
  obtain idx action where click: "click = (idx, action)" by (cases click)
  with Cons.prems have choice: "action \<in> set sentry_choices"
    by (auto dest: sentry_button_choice)
  let ?u = "d(idx \<mapsto> action)"
  have inv_u: "\<forall>i a. ?u i = Some a \<longrightarrow> a \<in> set sentry_choices"
    using Cons.prems(1) choice by auto
  from Cons.prems have rest: "set clicks \<subseteq> set (sentry_buttons cards)" by simp
  show ?case
  proof (cases "\<forall>i < length cards. ?u i \<noteq> None")
    case True
    let ?m = "SentryDecision
                (map (\<lambda>(cid, i). (cid, the (?u i))) (zip cards [0 ..< length cards]))"
    have step: "SentryPrompt_handleAction cards d idx action = (Map.empty, Some ?m)"
      using True by (rule handleAction_full)
    have eq: "sentry_clicks cards d (click # clicks)
                = ?m # sentry_clicks cards Map.empty clicks"
      unfolding click by (simp only: sentry_clicks.simps step prod.case option.case append.simps)
    have "complete_response cards ?m"
      using inv_u True by (rule full_response_complete)
    moreover have "list_all (complete_response cards) (sentry_clicks cards Map.empty clicks)"
      by (rule Cons.IH) (simp_all add: rest)
    ultimately show ?thesis
      by (simp only: eq list.pred_inject simp_thms)
  next
    case False
    have step: "SentryPrompt_handleAction cards d idx action = (?u, None)"
      using False by (rule handleAction_partial)
    have eq: "sentry_clicks cards d (click # clicks) = sentry_clicks cards ?u clicks"
      unfolding click by (simp only: sentry_clicks.simps step prod.case option.case append.simps)
    have "list_all (complete_response cards) (sentry_clicks cards ?u clicks)"
      using inv_u rest by (rule Cons.IH)
    then show ?thesis by (simp only: eq)
  qed
qed

lemma decisions_of_choices:
  assumes "\<forall>i < length cards. u i = Some (f i)"
  shows "map (\<lambda>(cid, i). (cid, the (u i))) (zip cards [0 ..< length cards])
       = map (\<lambda>(cid, i). (cid, f i)) (zip cards [0 ..< length cards])"
proof (rule map_cong [OF refl])
  fix x assume mem: "x \<in> set (zip cards [0 ..< length cards])"
  obtain cid i where x: "x = (cid, i)" by (cases x)
  from mem
  have "i \<in> set [0 ..< length cards]" unfolding x by (rule set_zip_rightD)
  then have "i < length cards" by simp
  with assms have "the (u i) = f i" by simp
  with x show "(case x of (cid, i) \<Rightarrow> (cid, the (u i))) = (case x of (cid, i) \<Rightarrow> (cid, f i))"
    by simp
qed

lemma one_click_per_card:
  assumes "distinct js" and "js \<noteq> []"
    and "set js \<union> S = {..< length cards}" and "set js \<inter> S = {}"
    and "\<forall>i < length cards. d i = (if i \<in> S then Some (f i) else None)"
  shows "sentry_clicks cards d (map (\<lambda>i. (i, f i)) js)
       = [SentryDecision (map (\<lambda>(cid, i). (cid, f i)) (zip cards [0 ..< length cards]))]"
  using assms
proof (induction js arbitrary: d S)
  case Nil
  then show ?case by simp
next
  case (Cons j rest)
  define u where "u = d(j \<mapsto> f j)"
  have u: "\<forall>i < length cards. u i = (if i \<in> insert j S then Some (f i) else None)"
    unfolding u_def using Cons.prems(5) by simp
  show ?case
  proof (cases "rest = []")
    case True
    with Cons.prems(3) have "insert j S = {..< length cards}" by simp
    with u have all: "\<forall>i < length cards. u i = Some (f i)" by simp
    then have "\<forall>i < length cards. u i \<noteq> None" by simp
    then have "SentryPrompt_handleAction cards d j (f j)
        = (Map.empty, Some (SentryDecision
              (map (\<lambda>(cid, i). (cid, the (u i))) (zip cards [0 ..< length cards]))))"
      unfolding u_def by (rule handleAction_full)
    then have step: "SentryPrompt_handleAction cards d j (f j)
        = (Map.empty, Some (SentryDecision
              (map (\<lambda>(cid, i). (cid, f i)) (zip cards [0 ..< length cards]))))"
      by (simp only: decisions_of_choices [OF all])
    show ?thesis
      unfolding True
      by (simp only: list.map sentry_clicks.simps step prod.case option.case append.simps)
  next
    case False
    then obtain k where k: "k \<in> set rest" by (cases rest) auto
    with Cons.prems(1) have "k \<noteq> j" by auto
    moreover from k Cons.prems(4) have "k \<notin> S" by auto
    moreover from k Cons.prems(3) have "k < length cards" by auto
    ultimately have "u k = None" using u by simp
    then have "\<not> (\<forall>i < length cards. u i \<noteq> None)"
      using \<open>k < length cards\<close> by blast
    then have step: "SentryPrompt_handleAction cards d j (f j) = (u, None)"
      unfolding u_def by (rule handleAction_partial)
    have "sentry_clicks cards u (map (\<lambda>i. (i, f i)) rest)
       = [SentryDecision (map (\<lambda>(cid, i). (cid, f i)) (zip cards [0 ..< length cards]))]"
    proof (rule Cons.IH [where S = "insert j S"])
      show "distinct rest" using Cons.prems(1) by simp
      show "rest \<noteq> []" by (rule False)
      show "set rest \<union> insert j S = {..< length cards}" using Cons.prems(3) by auto
      show "set rest \<inter> insert j S = {}" using Cons.prems(1,4) by auto
      show "\<forall>i < length cards. u i = (if i \<in> insert j S then Some (f i) else None)"
        by (rule u)
    qed
    then show ?thesis
      by (simp only: list.map sentry_clicks.simps step prod.case option.case append.simps)
  qed
qed

text \<open>
  C4. A click on a button of the prompt sends an envelope exactly when, with the
  choice of that click recorded, every revealed card has a choice: it sends none
  while a revealed card has no choice, and once every revealed card has one it sends
  one \<^verbatim>\<open>sentry_decision\<close> and clears the record of choices. The envelope holds one
  decision per revealed card, the cards in the order of the revealed list, each
  decision the choice recorded for that card's index. Over any sequence of clicks on
  the buttons of the prompt, every envelope sent is such a \<^verbatim>\<open>sentry_decision\<close>, each of
  its decisions one of trash, discard and topdeck; and one click per revealed card,
  the cards taken in any order, sends exactly one envelope, with the choice made for
  each card. (With no card revealed the prompt shows no button, and nothing is sent.)
\<close>

theorem sentry_decision_all_or_nothing:
  assumes "set clicks \<subseteq> set (sentry_buttons cards)"
  shows "list_all (complete_response cards) (sentry_clicks cards Map.empty clicks)
       \<and> (\<forall>d idx action.
            (\<exists>i < length cards. (d(idx \<mapsto> action)) i = None)
              \<longrightarrow> snd (SentryPrompt_handleAction cards d idx action) = None)
       \<and> (\<forall>d idx action m.
            snd (SentryPrompt_handleAction cards d idx action) = Some m
              \<longrightarrow> fst (SentryPrompt_handleAction cards d idx action) = Map.empty
                \<and> (\<exists>ds. m = SentryDecision ds \<and> map fst ds = cards
                     \<and> length ds = length cards
                     \<and> (\<forall>i < length cards. (d(idx \<mapsto> action)) i = Some (snd (ds ! i)))))
       \<and> (\<forall>d idx action.
            (\<forall>i < length cards. (d(idx \<mapsto> action)) i \<noteq> None)
              \<longrightarrow> SentryPrompt_handleAction cards d idx action
                    = (Map.empty,
                       Some (SentryDecision
                               (map (\<lambda>(cid, i). (cid, the ((d(idx \<mapsto> action)) i)))
                                  (zip cards [0 ..< length cards])))))
       \<and> (\<forall>js f.
            distinct js \<and> js \<noteq> [] \<and> set js = {..< length cards}
              \<longrightarrow> sentry_clicks cards Map.empty (map (\<lambda>i. (i, f i)) js)
                    = [SentryDecision
                         (map (\<lambda>(cid, i). (cid, f i)) (zip cards [0 ..< length cards]))])"
proof (intro conjI allI impI)
  show "list_all (complete_response cards) (sentry_clicks cards Map.empty clicks)"
    using assms by (intro sentry_clicks_complete) simp_all
next
  fix d :: "nat \<rightharpoonup> string" and idx action
  assume "\<exists>i < length cards. (d(idx \<mapsto> action)) i = None"
  then have "\<not> (\<forall>i < length cards. (d(idx \<mapsto> action)) i \<noteq> None)"
    by blast
  then have "SentryPrompt_handleAction cards d idx action = (d(idx \<mapsto> action), None)"
    by (rule handleAction_partial)
  then show "snd (SentryPrompt_handleAction cards d idx action) = None"
    by (simp only: snd_conv)
next
  fix d :: "nat \<rightharpoonup> string" and idx action m
  assume sent: "snd (SentryPrompt_handleAction cards d idx action) = Some m"
  show "fst (SentryPrompt_handleAction cards d idx action) = Map.empty"
  proof (cases "\<forall>i < length cards. (d(idx \<mapsto> action)) i \<noteq> None")
    case True
    then show ?thesis by (simp only: handleAction_full fst_conv)
  next
    case False
    then have "SentryPrompt_handleAction cards d idx action = (d(idx \<mapsto> action), None)"
      by (rule handleAction_partial)
    with sent show ?thesis by (simp only: snd_conv option.distinct)
  qed
next
  fix d :: "nat \<rightharpoonup> string" and idx action m
  define u where "u = d(idx \<mapsto> action)"
  define ds where "ds = map (\<lambda>(cid, i). (cid, the (u i))) (zip cards [0 ..< length cards])"
  assume sent: "snd (SentryPrompt_handleAction cards d idx action) = Some m"
  have full: "\<forall>i < length cards. u i \<noteq> None"
  proof (rule ccontr)
    assume "\<not> (\<forall>i < length cards. u i \<noteq> None)"
    then have "SentryPrompt_handleAction cards d idx action = (u, None)"
      unfolding u_def by (rule handleAction_partial)
    with sent show False by (simp only: snd_conv option.distinct)
  qed
  then have "SentryPrompt_handleAction cards d idx action = (Map.empty, Some (SentryDecision ds))"
    unfolding u_def ds_def by (rule handleAction_full)
  with sent have m: "m = SentryDecision ds" by (simp only: snd_conv option.inject)
  have fst_ds: "map fst ds = cards"
    unfolding ds_def by (rule map_fst_indexed)
  then have len: "length ds = length cards"
    by (metis length_map)
  have "\<forall>i < length cards. u i = Some (snd (ds ! i))"
  proof (intro allI impI)
    fix i assume i: "i < length cards"
    then have "ds ! i = (cards ! i, the (u i))"
      unfolding ds_def by (rule nth_indexed)
    then have "snd (ds ! i) = the (u i)" by (simp only: snd_conv)
    moreover from full i obtain a where "u i = Some a" by blast
    ultimately show "u i = Some (snd (ds ! i))" by (simp only: option.sel)
  qed
  with m fst_ds len
  show "\<exists>ds. m = SentryDecision ds \<and> map fst ds = cards \<and> length ds = length cards
          \<and> (\<forall>i < length cards. (d(idx \<mapsto> action)) i = Some (snd (ds ! i)))"
    unfolding u_def by blast
next
  fix d :: "nat \<rightharpoonup> string" and idx action
  assume "\<forall>i < length cards. (d(idx \<mapsto> action)) i \<noteq> None"
  then show "SentryPrompt_handleAction cards d idx action
       = (Map.empty,
          Some (SentryDecision
                  (map (\<lambda>(cid, i). (cid, the ((d(idx \<mapsto> action)) i)))
                     (zip cards [0 ..< length cards]))))"
    by (rule handleAction_full)
next
  fix js :: "nat list" and f :: "nat \<Rightarrow> string"
  assume js: "distinct js \<and> js \<noteq> [] \<and> set js = {..< length cards}"
  show "sentry_clicks cards Map.empty (map (\<lambda>i. (i, f i)) js)
      = [SentryDecision (map (\<lambda>(cid, i). (cid, f i)) (zip cards [0 ..< length cards]))]"
  proof (rule one_click_per_card [where S = "{}"])
    show "distinct js" using js by (rule conjunct1)
    show "js \<noteq> []" using js by simp
    show "set js \<union> {} = {..< length cards}" using js by simp
    show "set js \<inter> {} = {}" by simp
    show "\<forall>i < length cards. Map.empty i = (if i \<in> {} then Some (f i) else None)" by simp
  qed
qed

theorem sentry_decision_all_or_nothing_witness:
  "set [(0, ''trash''), (1, ''discard''), (0, ''topdeck''), (1, ''topdeck'')]
     \<subseteq> set (sentry_buttons [''copper'', ''village''])
   \<and> sentry_clicks [''copper'', ''village''] Map.empty
       [(0, ''trash''), (1, ''discard''), (0, ''topdeck''), (1, ''topdeck'')]
     = [SentryDecision [(''copper'', ''trash''), (''village'', ''discard'')],
        SentryDecision [(''copper'', ''topdeck''), (''village'', ''topdeck'')]]
   \<and> list_all (complete_response [''copper'', ''village''])
        (sentry_clicks [''copper'', ''village''] Map.empty
           [(0, ''trash''), (1, ''discard''), (0, ''topdeck''), (1, ''topdeck'')])
   \<and> snd (SentryPrompt_handleAction [''copper'', ''village''] Map.empty 0 ''trash'') = None
   \<and> SentryPrompt_handleAction [''copper'', ''village''] [0 \<mapsto> ''trash''] 1 ''discard''
     = (Map.empty,
        Some (SentryDecision [(''copper'', ''trash''), (''village'', ''discard'')]))
   \<and> sentry_clicks [''copper'', ''village''] Map.empty [(1, ''discard''), (0, ''trash'')]
     = [SentryDecision [(''copper'', ''trash''), (''village'', ''discard'')]]"
proof -
  have b: "set [(0, ''trash''), (1, ''discard''), (0, ''topdeck''), (1, ''topdeck'')]
     \<subseteq> set (sentry_buttons [''copper'', ''village''])"
    by (simp add: sentry_buttons_def sentry_choices_def)
  note t = sentry_decision_all_or_nothing [OF b]
  have "\<exists>i < length [''copper'', ''village''].
          ((Map.empty :: nat \<rightharpoonup> string)(0 \<mapsto> ''trash'')) i = None"
    by (rule exI [of _ 1]) simp
  then have n: "snd (SentryPrompt_handleAction [''copper'', ''village''] Map.empty 0 ''trash'')
                  = None"
    by (rule t [THEN conjunct2, THEN conjunct1, rule_format])
  have e: "sentry_clicks [''copper'', ''village''] Map.empty
       [(0, ''trash''), (1, ''discard''), (0, ''topdeck''), (1, ''topdeck'')]
     = [SentryDecision [(''copper'', ''trash''), (''village'', ''discard'')],
        SentryDecision [(''copper'', ''topdeck''), (''village'', ''topdeck'')]]"
    by (simp add: SentryPrompt_handleAction_def)
  have "\<forall>i < length [''copper'', ''village''].
          ([0 \<mapsto> ''trash''](1 \<mapsto> ''discard'')) i \<noteq> None"
    by (simp add: less_Suc_eq)
  then have "SentryPrompt_handleAction [''copper'', ''village''] [0 \<mapsto> ''trash''] 1 ''discard''
     = (Map.empty,
        Some (SentryDecision
                (map (\<lambda>(cid, i). (cid, the (([0 \<mapsto> ''trash''](1 \<mapsto> ''discard'')) i)))
                   (zip [''copper'', ''village''] [0 ..< length [''copper'', ''village'']]))))"
    by (rule t [THEN conjunct2, THEN conjunct2, THEN conjunct2, THEN conjunct1,
                THEN spec, THEN spec, THEN spec, THEN mp])
  then have s: "SentryPrompt_handleAction [''copper'', ''village''] [0 \<mapsto> ''trash''] 1 ''discard''
     = (Map.empty,
        Some (SentryDecision [(''copper'', ''trash''), (''village'', ''discard'')]))"
    by (simp add: upt_rec [of 0] upt_rec [of 1] upt_rec [of 2])
  have "distinct [1, 0 :: nat] \<and> [1, 0 :: nat] \<noteq> []
        \<and> set [1, 0 :: nat] = {..< length [''copper'', ''village'']}"
    by auto
  then have "sentry_clicks [''copper'', ''village''] Map.empty
        (map (\<lambda>i. (i, [''trash'', ''discard''] ! i)) [1, 0])
     = [SentryDecision
          (map (\<lambda>(cid, i). (cid, [''trash'', ''discard''] ! i))
             (zip [''copper'', ''village''] [0 ..< length [''copper'', ''village'']]))]"
    by (rule t [THEN conjunct2, THEN conjunct2, THEN conjunct2, THEN conjunct2, rule_format])
  then have o: "sentry_clicks [''copper'', ''village''] Map.empty
        [(1, ''discard''), (0, ''trash'')]
     = [SentryDecision [(''copper'', ''trash''), (''village'', ''discard'')]]"
    by (simp add: upt_rec [of 0] upt_rec [of 1] upt_rec [of 2])
  from b e t [THEN conjunct1] n s o show ?thesis
    by (intro conjI)
qed

subsection \<open>Buying\<close>

lemma engine_buy_accepted:
  assumes "engine_buy catalog r pid cid = Inr r'"
  shows "\<exists>p c n. current_player_of r = Some p \<and> pl_id p = pid \<and> rm_phase r = BuyPhase
           \<and> rm_pending r = None
           \<and> catalog cid = Some c \<and> rm_supply r cid = Some n
           \<and> pl_coins p \<ge> cost c \<and> pl_buys p > 0 \<and> n > 0
           \<and> r' = r \<lparr> rm_players := (rm_players r)
                          [rm_current r :=
                             p \<lparr> pl_coins := pl_coins p - cost c,
                                 pl_buys := pl_buys p - 1,
                                 pl_discard := pl_discard p @ [cid] \<rparr>],
                        rm_supply := (rm_supply r)(cid \<mapsto> n - 1) \<rparr>"
  using assms unfolding engine_buy_def
  by (auto split: option.splits if_splits)

lemma current_player_of_update:
  "current_player_of r = Some p \<Longrightarrow>
   current_player_of (r \<lparr> rm_players := (rm_players r)[rm_current r := q], rm_supply := s \<rparr>)
     = Some q"
  by (auto simp: current_player_of_def split: if_splits)

text \<open>
  C1. In the client, a click on a supply pile sends the buy of that pile only when
  this client's player is the current player, the phase is buy, the player's coins
  are at least the card's cost, the player has a buy left and the pile has cards
  left. In the engine, a buy is accepted only under the same conditions and is
  accepted whenever they hold with no decision pending; an accepted buy reduces the
  buyer's coins by the cost and the buys by one, appends the card to the buyer's
  discard, takes one card from the pile, and changes no other player and no other
  pile.
\<close>

theorem buy_gate_and_effect:
  "(board_supply_click gs playerId cardDefs cid count = Some (Buy x) \<longrightarrow>
      x = cid
      \<and> (\<exists>me. find_me gs playerId = Some me \<and> playerId = Some (ps_id me)
            \<and> current_player gs = Some (ps_id me) \<and> phase gs = ''buy''
            \<and> coins me \<ge> cv_cost_or0 (getCard cardDefs cid) \<and> buys me > 0 \<and> count > 0))
   \<and> (engine_buy catalog r pid pile = Inr r' \<longrightarrow>
        (\<exists>p c n. current_player_of r = Some p \<and> pl_id p = pid \<and> rm_phase r = BuyPhase
           \<and> catalog pile = Some c \<and> rm_supply r pile = Some n
           \<and> pl_coins p \<ge> cost c \<and> pl_buys p > 0 \<and> n > 0
           \<and> current_player_of r' =
                 Some (p \<lparr> pl_coins := pl_coins p - cost c, pl_buys := pl_buys p - 1,
                           pl_discard := pl_discard p @ [pile] \<rparr>)
           \<and> rm_supply r' = (rm_supply r)(pile \<mapsto> n - 1)
           \<and> length (rm_players r') = length (rm_players r)
           \<and> (\<forall>i. i \<noteq> rm_current r \<longrightarrow> rm_players r' ! i = rm_players r ! i)
           \<and> rm_current r' = rm_current r \<and> rm_phase r' = rm_phase r
           \<and> rm_trash r' = rm_trash r))
   \<and> ((\<exists>p c n. current_player_of r = Some p \<and> pl_id p = pid \<and> rm_phase r = BuyPhase
           \<and> rm_pending r = None \<and> catalog pile = Some c \<and> rm_supply r pile = Some n
           \<and> pl_coins p \<ge> cost c \<and> pl_buys p > 0 \<and> n > 0)
        \<longrightarrow> (\<exists>r''. engine_buy catalog r pid pile = Inr r''))"
proof (intro conjI impI)
  assume "board_supply_click gs playerId cardDefs cid count = Some (Buy x)"
  then have "x = cid"
    and "canBuy gs playerId (find_me gs playerId) (getCard cardDefs cid) count"
    by (simp_all add: board_supply_click_def Supply_click_buy_iff)
  then show "x = cid"
    and "\<exists>me. find_me gs playerId = Some me \<and> playerId = Some (ps_id me)
            \<and> current_player gs = Some (ps_id me) \<and> phase gs = ''buy''
            \<and> coins me \<ge> cv_cost_or0 (getCard cardDefs cid) \<and> buys me > 0 \<and> count > 0"
    by (simp_all add: canBuy_player)
next
  assume "engine_buy catalog r pid pile = Inr r'"
  from engine_buy_accepted [OF this] obtain p c n where
    h: "current_player_of r = Some p" "pl_id p = pid" "rm_phase r = BuyPhase"
       "catalog pile = Some c" "rm_supply r pile = Some n"
       "pl_coins p \<ge> cost c" "pl_buys p > 0" "n > 0"
    and r': "r' = r \<lparr> rm_players := (rm_players r)
                          [rm_current r :=
                             p \<lparr> pl_coins := pl_coins p - cost c,
                                 pl_buys := pl_buys p - 1,
                                 pl_discard := pl_discard p @ [pile] \<rparr>],
                        rm_supply := (rm_supply r)(pile \<mapsto> n - 1) \<rparr>"
    by blast
  have "current_player_of r' =
          Some (p \<lparr> pl_coins := pl_coins p - cost c, pl_buys := pl_buys p - 1,
                    pl_discard := pl_discard p @ [pile] \<rparr>)"
    unfolding r' using h(1) by (rule current_player_of_update)
  moreover have "rm_supply r' = (rm_supply r)(pile \<mapsto> n - 1)"
    and "length (rm_players r') = length (rm_players r)"
    and "\<forall>i. i \<noteq> rm_current r \<longrightarrow> rm_players r' ! i = rm_players r ! i"
    and "rm_current r' = rm_current r" and "rm_phase r' = rm_phase r"
    and "rm_trash r' = rm_trash r"
    unfolding r' by simp_all
  ultimately show "\<exists>p c n. current_player_of r = Some p \<and> pl_id p = pid \<and> rm_phase r = BuyPhase
           \<and> catalog pile = Some c \<and> rm_supply r pile = Some n
           \<and> pl_coins p \<ge> cost c \<and> pl_buys p > 0 \<and> n > 0
           \<and> current_player_of r' =
                 Some (p \<lparr> pl_coins := pl_coins p - cost c, pl_buys := pl_buys p - 1,
                           pl_discard := pl_discard p @ [pile] \<rparr>)
           \<and> rm_supply r' = (rm_supply r)(pile \<mapsto> n - 1)
           \<and> length (rm_players r') = length (rm_players r)
           \<and> (\<forall>i. i \<noteq> rm_current r \<longrightarrow> rm_players r' ! i = rm_players r ! i)
           \<and> rm_current r' = rm_current r \<and> rm_phase r' = rm_phase r
           \<and> rm_trash r' = rm_trash r"
    using h by blast
next
  assume "\<exists>p c n. current_player_of r = Some p \<and> pl_id p = pid \<and> rm_phase r = BuyPhase
           \<and> rm_pending r = None \<and> catalog pile = Some c \<and> rm_supply r pile = Some n
           \<and> pl_coins p \<ge> cost c \<and> pl_buys p > 0 \<and> n > 0"
  then show "\<exists>r''. engine_buy catalog r pid pile = Inr r''"
    by (auto simp: engine_buy_def)
qed

theorem buy_gate_and_effect_witness:
  "board_supply_click buy_state (Some ''p1'') example_catalog ''market'' 8 = Some (Buy ''market'')
   \<and> find_me buy_state (Some ''p1'') = Some first_player
   \<and> coins first_player = 5 \<and> buys first_player = 1
   \<and> cv_cost_or0 (getCard example_catalog ''market'') = 5
   \<and> map_option pl_coins (current_player_of scenario_A) = Some 5
   \<and> map_option pl_buys (current_player_of scenario_A) = Some 1
   \<and> rm_supply scenario_A ''market'' = Some 8
   \<and> (case engine_buy server_catalog scenario_A ''p1'' ''market'' of
         Inl e \<Rightarrow> False
       | Inr r' \<Rightarrow>
           map_option pl_coins (current_player_of r') = Some 0
           \<and> map_option pl_buys (current_player_of r') = Some 0
           \<and> map_option pl_discard (current_player_of r') = Some [''copper'', ''market'']
           \<and> rm_supply r' ''market'' = Some 7)"
proof -
  have click: "board_supply_click buy_state (Some ''p1'') example_catalog ''market'' 8
                 = Some (Buy ''market'')"
    by (simp add: board_supply_click_def Supply_click_def canBuy_def canGain_def
        isGainMode_def gainType_def find_me_def buy_state_def action_state_def
        first_player_def second_player_def example_getCard
        market_def num_or0_def)
  have me: "find_me buy_state (Some ''p1'') = Some first_player
            \<and> coins first_player = 5 \<and> buys first_player = 1
            \<and> cv_cost_or0 (getCard example_catalog ''market'') = 5"
    by (simp add: find_me_def buy_state_def action_state_def first_player_def
        example_getCard market_def num_or0_def)
  have before: "map_option pl_coins (current_player_of scenario_A) = Some 5
            \<and> map_option pl_buys (current_player_of scenario_A) = Some 1
            \<and> rm_supply scenario_A ''market'' = Some 8"
    by (simp add: scenario_A_def current_player_of_def)
  obtain r' where buy: "engine_buy server_catalog scenario_A ''p1'' ''market'' = Inr r'"
    by (simp add: engine_buy_def scenario_A_def current_player_of_def server_catalog_def
        example_cards_def copper_def village_def market_def silver_def)
  have "map_option pl_coins (current_player_of r') = Some 0
           \<and> map_option pl_buys (current_player_of r') = Some 0
           \<and> map_option pl_discard (current_player_of r') = Some [''copper'', ''market'']
           \<and> rm_supply r' ''market'' = Some 7"
    using buy_gate_and_effect
      [of buy_state "Some ''p1''" example_catalog "''market''" 8 "''market''"
          server_catalog scenario_A "''p1''" "''market''" r', THEN conjunct2, THEN conjunct1]
      buy
    by (auto simp: scenario_A_def current_player_of_def server_catalog_def
        example_cards_def copper_def village_def market_def silver_def)
  with click me before buy show ?thesis by simp
qed

subsection \<open>Playing an action card\<close>

lemma engine_play_action_accepted:
  assumes "engine_play_action catalog run_effects r pid cid = Inr r'"
  shows "\<exists>p c. current_player_of r = Some p \<and> pl_id p = pid \<and> rm_phase r = ActionPhase
           \<and> rm_pending r = None
           \<and> catalog cid = Some c \<and> card_type c = Action \<and> cid \<in> set (pl_hand p)
           \<and> pl_actions p > 0
           \<and> r' = run_effects c
                    (r \<lparr> rm_players := (rm_players r)
                           [rm_current r :=
                              p \<lparr> pl_actions := pl_actions p - 1,
                                  pl_hand := remove1 cid (pl_hand p),
                                  pl_play_area := pl_play_area p @ [cid] \<rparr>] \<rparr>)"
  using assms unfolding engine_play_action_def
  by (auto split: option.splits if_splits)

lemma current_player_of_players_update:
  "current_player_of r = Some p \<Longrightarrow>
   current_player_of (r \<lparr> rm_players := (rm_players r)[rm_current r := q] \<rparr>) = Some q"
  by (auto simp: current_player_of_def split: if_splits)

lemma actions_left_player:
  assumes "num_or0 (map_option actions (find_me gs playerId)) > 0"
  shows "\<exists>me. find_me gs playerId = Some me \<and> playerId = Some (ps_id me) \<and> actions me > 0"
proof (cases "find_me gs playerId")
  case None
  with assms show ?thesis by (simp add: num_or0_def)
next
  case (Some me)
  then have "playerId = Some (ps_id me)" by (simp add: find_me_Some)
  with assms Some show ?thesis by (simp add: num_or0_def split: if_splits)
qed

text \<open>
  C8. In the client, a click on a card of the hand sends the play of an action card
  only in the action phase, when this client's player is the current player and has
  at least one action left, and the card is an action card. In the engine, the play
  is accepted only in the action phase, from the current player with at least one
  action left, and whenever that holds for an action card of the hand with no
  decision pending; an accepted play takes one action from the player and moves the
  card from the hand to the play area before the card's effects run.
\<close>

theorem play_action_gate_and_cost:
  "(board_hand_click gs playerId cardDefs idx = Some (Send (PlayAction x)) \<longrightarrow>
      phase gs = ''action''
      \<and> (\<exists>me. find_me gs playerId = Some me \<and> playerId = Some (ps_id me)
            \<and> current_player gs = Some (ps_id me) \<and> actions me > 0
            \<and> idx < length (hand_of (Some me)) \<and> x = hand_of (Some me) ! idx
            \<and> cv_type (getCard cardDefs x) = Some Action))
   \<and> (engine_play_action catalog run_effects r pid played = Inr r' \<longrightarrow>
        (\<exists>p c r1. current_player_of r = Some p \<and> pl_id p = pid \<and> rm_phase r = ActionPhase
           \<and> catalog played = Some c \<and> card_type c = Action \<and> played \<in> set (pl_hand p)
           \<and> pl_actions p > 0
           \<and> current_player_of r1 =
                 Some (p \<lparr> pl_actions := pl_actions p - 1,
                           pl_hand := remove1 played (pl_hand p),
                           pl_play_area := pl_play_area p @ [played] \<rparr>)
           \<and> (\<forall>i. i \<noteq> rm_current r \<longrightarrow> rm_players r1 ! i = rm_players r ! i)
           \<and> rm_supply r1 = rm_supply r \<and> rm_phase r1 = rm_phase r
           \<and> r' = run_effects c r1))
   \<and> ((\<exists>p c. current_player_of r = Some p \<and> pl_id p = pid \<and> rm_phase r = ActionPhase
           \<and> rm_pending r = None \<and> catalog played = Some c \<and> card_type c = Action
           \<and> played \<in> set (pl_hand p) \<and> pl_actions p > 0)
        \<longrightarrow> (\<exists>r''. engine_play_action catalog run_effects r pid played = Inr r''))"
proof (intro conjI impI)
  assume click: "board_hand_click gs playerId cardDefs idx = Some (Send (PlayAction x))"
  from board_hand_click_send [OF click]
  have idx: "idx < length (hand_of (find_me gs playerId))"
    and turn: "current_player gs = playerId"
    and play: "x = hand_of (find_me gs playerId) ! idx"
      "cv_type (getCard cardDefs (hand_of (find_me gs playerId) ! idx)) = Some Action"
      "phase gs = ''action''"
      "num_or0 (map_option actions (find_me gs playerId)) > 0"
    by auto
  from play(3) show "phase gs = ''action''" .
  from actions_left_player [OF play(4)] obtain me where
    me: "find_me gs playerId = Some me" "playerId = Some (ps_id me)" "actions me > 0"
    by blast
  with idx turn play
  show "\<exists>me. find_me gs playerId = Some me \<and> playerId = Some (ps_id me)
            \<and> current_player gs = Some (ps_id me) \<and> actions me > 0
            \<and> idx < length (hand_of (Some me)) \<and> x = hand_of (Some me) ! idx
            \<and> cv_type (getCard cardDefs x) = Some Action"
    by simp
next
  assume "engine_play_action catalog run_effects r pid played = Inr r'"
  from engine_play_action_accepted [OF this] obtain p c where
    h: "current_player_of r = Some p" "pl_id p = pid" "rm_phase r = ActionPhase"
       "catalog played = Some c" "card_type c = Action" "played \<in> set (pl_hand p)"
       "pl_actions p > 0"
    and r': "r' = run_effects c
                    (r \<lparr> rm_players := (rm_players r)
                           [rm_current r :=
                              p \<lparr> pl_actions := pl_actions p - 1,
                                  pl_hand := remove1 played (pl_hand p),
                                  pl_play_area := pl_play_area p @ [played] \<rparr>] \<rparr>)"
    by blast
  define r1 where "r1 = r \<lparr> rm_players := (rm_players r)
                           [rm_current r :=
                              p \<lparr> pl_actions := pl_actions p - 1,
                                  pl_hand := remove1 played (pl_hand p),
                                  pl_play_area := pl_play_area p @ [played] \<rparr>] \<rparr>"
  have "current_player_of r1 =
          Some (p \<lparr> pl_actions := pl_actions p - 1,
                    pl_hand := remove1 played (pl_hand p),
                    pl_play_area := pl_play_area p @ [played] \<rparr>)"
    unfolding r1_def using h(1) by (rule current_player_of_players_update)
  moreover have "\<forall>i. i \<noteq> rm_current r \<longrightarrow> rm_players r1 ! i = rm_players r ! i"
    and "rm_supply r1 = rm_supply r" and "rm_phase r1 = rm_phase r"
    unfolding r1_def by simp_all
  moreover have "r' = run_effects c r1"
    unfolding r1_def by (rule r')
  ultimately show "\<exists>p c r1. current_player_of r = Some p \<and> pl_id p = pid
           \<and> rm_phase r = ActionPhase
           \<and> catalog played = Some c \<and> card_type c = Action \<and> played \<in> set (pl_hand p)
           \<and> pl_actions p > 0
           \<and> current_player_of r1 =
                 Some (p \<lparr> pl_actions := pl_actions p - 1,
                           pl_hand := remove1 played (pl_hand p),
                           pl_play_area := pl_play_area p @ [played] \<rparr>)
           \<and> (\<forall>i. i \<noteq> rm_current r \<longrightarrow> rm_players r1 ! i = rm_players r ! i)
           \<and> rm_supply r1 = rm_supply r \<and> rm_phase r1 = rm_phase r
           \<and> r' = run_effects c r1"
    using h by blast
next
  assume "\<exists>p c. current_player_of r = Some p \<and> pl_id p = pid \<and> rm_phase r = ActionPhase
           \<and> rm_pending r = None \<and> catalog played = Some c \<and> card_type c = Action
           \<and> played \<in> set (pl_hand p) \<and> pl_actions p > 0"
  then show "\<exists>r''. engine_play_action catalog run_effects r pid played = Inr r''"
    by (auto simp: engine_play_action_def)
qed

theorem play_action_gate_and_cost_witness:
  "board_hand_click action_state (Some ''p1'') example_catalog 1
     = Some (Send (PlayAction ''village''))
   \<and> phase action_state = ''action''
   \<and> current_player action_state = Some ''p1''
   \<and> actions first_player = 1
   \<and> map_option pl_actions (current_player_of scenario_action) = Some 1
   \<and> (case engine_play_action server_catalog (\<lambda>c r. r) scenario_action ''p1'' ''village'' of
         Inl e \<Rightarrow> False
       | Inr r' \<Rightarrow>
           map_option pl_actions (current_player_of r') = Some 0
           \<and> map_option pl_hand (current_player_of r') = Some []
           \<and> map_option pl_play_area (current_player_of r')
               = Some [''copper'', ''silver'', ''silver'', ''village''])
   \<and> (case engine_play_action server_catalog grant_actions scenario_action ''p1'' ''village'' of
         Inl e \<Rightarrow> False
       | Inr r' \<Rightarrow> map_option pl_actions (current_player_of r') = Some 2)"
proof -
  have click: "board_hand_click action_state (Some ''p1'') example_catalog 1
     = Some (Send (PlayAction ''village''))"
    by (simp add: board_hand_click_def find_me_def hand_of_def
      action_state_def first_player_def second_player_def Hand_handleClick_def
      discardMode_def isMyPa_def example_getCard
      village_def num_or0_def)
  have st: "phase action_state = ''action'' \<and> current_player action_state = Some ''p1''
      \<and> actions first_player = 1
      \<and> map_option pl_actions (current_player_of scenario_action) = Some 1"
    by (simp add: action_state_def first_player_def scenario_action_def scenario_A_def
        current_player_of_def)
  obtain r' where play:
    "engine_play_action server_catalog (\<lambda>c r. r) scenario_action ''p1'' ''village'' = Inr r'"
    by (simp add: engine_play_action_def scenario_action_def scenario_A_def
        current_player_of_def server_catalog_def
        example_cards_def copper_def village_def market_def silver_def)
  have after: "map_option pl_actions (current_player_of r') = Some 0
           \<and> map_option pl_hand (current_player_of r') = Some []
           \<and> map_option pl_play_area (current_player_of r')
               = Some [''copper'', ''silver'', ''silver'', ''village'']"
    using play_action_gate_and_cost
      [of action_state "Some ''p1''" example_catalog 1 "''village''"
          server_catalog "\<lambda>c r. r" scenario_action "''p1''" "''village''" r',
       THEN conjunct2, THEN conjunct1]
      play
    by (auto simp: scenario_action_def scenario_A_def current_player_of_def
        server_catalog_def example_cards_def copper_def village_def market_def silver_def)
  have granted:
    "engine_play_action server_catalog grant_actions scenario_action ''p1'' ''village''
       = Inr (grant_actions village
                (scenario_action \<lparr> rm_players := (rm_players scenario_action)
                   [0 := (rm_players scenario_action ! 0)
                      \<lparr> pl_actions := 0, pl_hand := [], 
                        pl_play_area := [''copper'', ''silver'', ''silver'', ''village''] \<rparr>] \<rparr>))"
    by (simp add: engine_play_action_def scenario_action_def scenario_A_def
        current_player_of_def server_catalog_def
        example_cards_def copper_def village_def market_def silver_def)
  have "map_option pl_actions (current_player_of (grant_actions village
                (scenario_action \<lparr> rm_players := (rm_players scenario_action)
                   [0 := (rm_players scenario_action ! 0)
                      \<lparr> pl_actions := 0, pl_hand := [], 
                        pl_play_area := [''copper'', ''silver'', ''silver'', ''village''] \<rparr>] \<rparr>)))
        = Some 2"
    by (simp add: grant_actions_def scenario_action_def scenario_A_def
        current_player_of_def village_def)
  with click st play after granted show ?thesis by simp
qed

subsection \<open>Rejected actions\<close>

lemma onMessage_error:
  "msg_type m = Error \<Longrightarrow>
   onMessage st m = (if truthy (msg_message m) then st \<lparr> cl_toast := msg_message m \<rparr> else st)"
  by (simp add: onMessage_def)

text \<open>
  C5, as claimed, fails in its client half: every error message is claimed to display
  a notification. The handler shows the toast under the guard
  \<^verbatim>\<open>msg.type === 'error' && msg.message\<close>: an error message without a text (the field
  is optional in \<^verbatim>\<open>WSMessage\<close>), or with the empty text, displays nothing.
\<close>

theorem error_without_text_counterexample:
  "msg_type (error_message None) = Error
   \<and> cl_toast example_client = None
   \<and> cl_toast (onMessage example_client (error_message None)) = None
   \<and> onMessage example_client (error_message None) = example_client
   \<and> msg_type (error_message (Some [])) = Error
   \<and> onMessage example_client (error_message (Some [])) = example_client"
  by (simp add: onMessage_def error_message_def truthy_def example_client_def)

text \<open>
  C5, amended: when an action is rejected, an error message is delivered to the
  originating connection only, no state is broadcast, and the room is unchanged; on
  the client, an error message leaves the held game state, the screen, the player
  identity and the stored identities as they were, and it displays its text as a
  notification when it carries a text that is not empty.
\<close>

theorem rejection_reaches_origin_only:
  "(apply_action r pid act = Inl e \<longrightarrow>
      room_dispatch apply_action describe snapshot conns r origin pid act
        = (r, [(origin, error_message (Some (describe e)))])
      \<and> list_all (\<lambda>(conn, m). conn = origin \<and> msg_type m = Error \<and> msg_state m = None)
          (snd (room_dispatch apply_action describe snapshot conns r origin pid act)))
   \<and> (msg_type m = Error \<longrightarrow>
        cl_gameState (onMessage st m) = cl_gameState st
        \<and> cl_screen (onMessage st m) = cl_screen st
        \<and> cl_playerId (onMessage st m) = cl_playerId st
        \<and> cl_storage (onMessage st m) = cl_storage st
        \<and> (truthy (msg_message m) \<longrightarrow> cl_toast (onMessage st m) = msg_message m)
        \<and> (\<not> truthy (msg_message m) \<longrightarrow> onMessage st m = st))"
  by (simp add: room_dispatch_def error_message_def onMessage_error)

theorem rejection_reaches_origin_only_witness:
  "engine_buy server_catalog scenario_action ''p1'' ''market'' = Inl WrongPhase
   \<and> room_dispatch (\<lambda>r pid act. case act of Buy cid \<Rightarrow> engine_buy server_catalog r pid cid
                                   | _ \<Rightarrow> Inl UnknownAction)
        (\<lambda>e. ''rejected'') (\<lambda>r pid. action_state) [(0, ''p1''), (1, ''p2'')]
        scenario_action 0 ''p1'' (Buy ''market'')
      = (scenario_action, [(0, error_message (Some ''rejected''))])
   \<and> msg_type (error_message (Some ''rejected'')) = Error
   \<and> truthy (msg_message (error_message (Some ''rejected'')))
   \<and> onMessage example_client (error_message (Some ''rejected''))
       = example_client \<lparr> cl_toast := Some ''rejected'' \<rparr>"
proof -
  let ?apply = "\<lambda>r pid act. case act of Buy cid \<Rightarrow> engine_buy server_catalog r pid cid
                                   | _ \<Rightarrow> Inl UnknownAction"
  have rej: "engine_buy server_catalog scenario_action ''p1'' ''market'' = Inl WrongPhase"
    by (simp add: engine_buy_def scenario_action_def scenario_A_def current_player_of_def)
  then have a: "?apply scenario_action ''p1'' (Buy ''market'') = Inl WrongPhase"
    by simp
  have m: "msg_type (error_message (Some ''rejected'')) = Error
           \<and> truthy (msg_message (error_message (Some ''rejected'')))"
    by (simp add: error_message_def truthy_def)
  note t = rejection_reaches_origin_only
      [of ?apply scenario_action "''p1''" "Buy ''market''" WrongPhase "\<lambda>e. ''rejected''"
          "\<lambda>r pid. action_state" "[(0, ''p1''), (1, ''p2'')]" 0
          "error_message (Some ''rejected'')" example_client]
  from t a have d: "room_dispatch ?apply (\<lambda>e. ''rejected'') (\<lambda>r pid. action_state)
        [(0, ''p1''), (1, ''p2'')] scenario_action 0 ''p1'' (Buy ''market'')
      = (scenario_action, [(0, error_message (Some ''rejected''))])"
    by blast
  from t m have c: "cl_gameState (onMessage example_client (error_message (Some ''rejected'')))
             = cl_gameState example_client
        \<and> cl_screen (onMessage example_client (error_message (Some ''rejected'')))
             = cl_screen example_client
        \<and> cl_playerId (onMessage example_client (error_message (Some ''rejected'')))
             = cl_playerId example_client
        \<and> cl_storage (onMessage example_client (error_message (Some ''rejected'')))
             = cl_storage example_client
        \<and> cl_toast (onMessage example_client (error_message (Some ''rejected'')))
             = msg_message (error_message (Some ''rejected''))"
    by blast
  have "onMessage example_client (error_message (Some ''rejected''))
       = example_client \<lparr> cl_toast := Some ''rejected'' \<rparr>"
    using c by (simp add: error_message_def client.equality)
  with rej d m show ?thesis by simp
qed

end
